theory Spec2Isabelle
  imports Main
begin

section \<open>Data of the controller's job handlers (jobs.go)\<close>

text \<open>
  Errors surfaced through the response helper. \<open>ErrNotFound\<close> is the controller's sentinel,
  \<open>ValidationError field message\<close> the structured validation failure, and
  \<open>ErrorString s\<close> any other error value whose \<open>Error()\<close> text is \<open>s\<close>
  (\<open>errors.New\<close>, \<open>fmt.Errorf\<close>, and the errors of the cluster client, which are modelled
  by their message).
\<close>

datatype error = ErrNotFound | ValidationError string string | ErrorString string

datatype AttachFlag =
  AttachFlagStdout | AttachFlagStderr | AttachFlagStdin | AttachFlagLogs | AttachFlagStream

record AttachReq =
  JobID :: string
  Flags :: "AttachFlag set"
  Height :: int
  Width :: int

record docker_Config =
  Cmd :: "string list"
  Env :: "string list"
  Image :: string
  AttachStdout :: bool
  AttachStderr :: bool
  AttachStdin :: bool
  StdinOnce :: bool
  OpenStdin :: bool
  Tty :: bool

text \<open>\<open>host.Job\<close>: \<open>Attributes\<close> is a Go map, \<open>Config\<close> a pointer that may be nil.\<close>

record host_Job =
  job_ID :: string
  Attributes :: "string \<rightharpoonup> string"
  Config :: "docker_Config option"

record host_Host =
  host_ID :: string
  Jobs :: "host_Job list"

text \<open>\<open>ct.Job\<close>, the summary returned to the caller.\<close>

record ct_Job =
  ID :: string
  Type :: string
  ReleaseID :: string
  job_Cmd :: "string list"

record ct_App =
  app_ID :: string

record ct_Release =
  release_ID :: string
  ArtifactID :: string
  release_Env :: "(string \<times> string) list"

record ct_Artifact =
  URI :: string

record ct_NewJob =
  new_ReleaseID :: string
  new_Cmd :: "string list"
  new_Env :: "(string \<times> string) list"
  TTY :: bool
  Columns :: int
  Lines :: int

text \<open>The parts of the HTTP request the handlers read.\<close>

record http_Request =
  Accept :: string
  tail :: string

type_synonym Params = "string \<rightharpoonup> string"

text \<open>
  Every call a handler makes on a collaborator is recorded, in program order, as an event.
\<close>

datatype json_body = JobsBody "ct_Job list" | JobBody ct_Job

datatype event =
    LogPrintf string "string list"
  | RError error
  | RJSON nat json_body
  | ReleasesGet string
  | ArtifactsGet string
  | CallListHosts
  | CallDialHost string
  | ClientClose string
  | ClientStopJob string string
  | ClientAttach string AttachReq bool
  | CallAddJobs string host_Job
  | CallAttachWait
  | AttachConnClose
  | AttachConnCloseWrite
  | AttachConnWrite string
  | HeaderSet string string
  | WriteHeader nat
  | Hijack
  | ConnClose
  | ConnCloseWrite
  | ConnWrite string
  | MutexLock
  | MutexUnlock
  | WWrite string
  | Panic string

text \<open>
  How a handler's run ends: it returned, it panicked, or it is still blocked (on the two
  completion signals of the duplex proxy).
\<close>

datatype status = Returned | Panicked | Blocked

type_synonym run = "event list \<times> status"

definition emit :: "event list \<Rightarrow> run \<Rightarrow> run" where
  "emit es r = (es @ fst r, snd r)"

text \<open>
  \<open>deferred es r\<close>: the body \<open>r\<close> of a function after a \<open>defer\<close>; the deferred calls
  \<open>es\<close> run when the body returns or panics, and not while it is blocked.
\<close>

definition deferred :: "event list \<Rightarrow> run \<Rightarrow> run" where
  "deferred es r = (if snd r = Blocked then r else (fst r @ es, snd r))"

text \<open>\<open>and_then r es\<close>: plain statements \<open>es\<close> after a call \<open>r\<close>; skipped unless the call returned.\<close>

definition and_then :: "run \<Rightarrow> event list \<Rightarrow> run" where
  "and_then r es = (if snd r = Returned then (fst r @ es, Returned) else r)"

section \<open>Collaborators\<close>

text \<open>
  An attach session as the handlers see it: \<open>raw_reads\<close> are the chunks \<open>io.Copy\<close> reads
  from the channel until its end, \<open>demux_writes\<close> the writes \<open>demultiplex.Copy\<close> issues for
  the same channel (stream number 1 is stdout, 2 is stderr), and \<open>wait_result\<close> the outcome
  of the session's wait function.
\<close>

record attach_session =
  raw_reads :: "string list"
  demux_writes :: "(nat \<times> string) list"
  wait_result :: "string option"

text \<open>\<open>cluster.Host\<close>, a dialed host; \<open>peer\<close> names it in the events.\<close>

record cluster_Host =
  peer :: string
  Attach :: "AttachReq \<Rightarrow> bool \<Rightarrow> string + attach_session"
  StopJob :: "string \<Rightarrow> string option"

text \<open>
  The \<open>clusterClient\<close> interface. \<open>ListHosts\<close> returns a Go map; the list is that map in
  the order in which this run iterates over it.
\<close>

record clusterClient =
  ListHosts :: "string + (string \<times> host_Host) list"
  DialHost :: "string \<Rightarrow> string + cluster_Host"
  AddJobs :: "string \<Rightarrow> host_Job \<Rightarrow> string option"

section \<open>parseJobID, connectHostMiddleware, killJob\<close>

definition param :: "Params \<Rightarrow> string \<Rightarrow> string" where
  "param params k = (case params k of None \<Rightarrow> [] | Some v \<Rightarrow> v)"

text \<open>
  \<open>strings.SplitN(s, sep, n)\<close> for a one-character separator and \<open>n \<ge> 0\<close>: at most
  \<open>n\<close> pieces, the last one the unsplit remainder.
\<close>

fun strings_SplitN :: "string \<Rightarrow> char \<Rightarrow> nat \<Rightarrow> string list" where
  "strings_SplitN s c 0 = []"
| "strings_SplitN s c (Suc 0) = [s]"
| "strings_SplitN s c (Suc (Suc n)) =
     (if c \<in> set s
      then takeWhile (\<lambda>x. x \<noteq> c) s # strings_SplitN (tl (dropWhile (\<lambda>x. x \<noteq> c) s)) c (Suc n)
      else [s])"

definition parseJobID :: "Params \<Rightarrow> string \<times> string" where
  "parseJobID params =
     (let id = strings_SplitN (param params ''jobs_id'') (CHR ''-'') 2 in
      if length id \<noteq> 2 \<or> id ! 0 = [] \<or> id ! 1 = [] then ([], [])
      else (id ! 0, id ! 1))"

definition connectHostMiddleware ::
  "clusterClient \<Rightarrow> Params \<Rightarrow> (cluster_Host \<Rightarrow> Params \<Rightarrow> run) \<Rightarrow> run" where
  "connectHostMiddleware cl params next =
     (let (hostID, jobID) = parseJobID params in
      if hostID = [] then
        ([LogPrintf ''Unable to parse hostID from %q'' [param params ''jobs_id''],
          RError ErrNotFound], Returned)
      else
        let params' = params(''jobs_id'' \<mapsto> jobID) in
        emit [CallDialHost hostID]
          (case DialHost cl hostID of
             Inl err \<Rightarrow> ([RError (ErrorString err)], Returned)
           | Inr client \<Rightarrow> and_then (next client params') [ClientClose (peer client)]))"

definition killJob :: "cluster_Host \<Rightarrow> Params \<Rightarrow> run" where
  "killJob client params =
     emit [ClientStopJob (peer client) (param params ''jobs_id'')]
       (case StopJob client (param params ''jobs_id'') of
          Some err \<Rightarrow> ([RError (ErrorString err)], Returned)
        | None \<Rightarrow> ([], Returned))"

section \<open>jobList\<close>

definition attr :: "host_Job \<Rightarrow> string \<Rightarrow> string" where
  "attr j k = (case Attributes j k of None \<Rightarrow> [] | Some v \<Rightarrow> v)"

text \<open>
  The inner loop over \<open>h.Jobs\<close>. \<open>None\<close> is the nil-pointer panic of
  \<open>j.Config.Cmd\<close> on a job without a config.
\<close>

fun jobList_jobs :: "ct_App \<Rightarrow> host_Host \<Rightarrow> host_Job list \<Rightarrow> ct_Job list \<Rightarrow> ct_Job list option" where
  "jobList_jobs app h [] jobs = Some jobs"
| "jobList_jobs app h (j # js) jobs =
     (if attr j ''flynn-controller.app'' \<noteq> app_ID app then jobList_jobs app h js jobs
      else
        let job = \<lparr>ID = host_ID h @ ''-'' @ job_ID j,
                   Type = attr j ''flynn-controller.type'',
                   ReleaseID = attr j ''flynn-controller.release'',
                   job_Cmd = []\<rparr> in
        if Type job = [] then
          (case Config j of
             None \<Rightarrow> None
           | Some c \<Rightarrow> jobList_jobs app h js (jobs @ [job\<lparr>job_Cmd := Cmd c\<rparr>]))
        else jobList_jobs app h js (jobs @ [job]))"

text \<open>The outer loop over the hosts map.\<close>

fun jobList_hosts :: "ct_App \<Rightarrow> (string \<times> host_Host) list \<Rightarrow> ct_Job list \<Rightarrow> ct_Job list option" where
  "jobList_hosts app [] jobs = Some jobs"
| "jobList_hosts app (kh # hs) jobs =
     (case jobList_jobs app (snd kh) (Jobs (snd kh)) jobs of
        None \<Rightarrow> None
      | Some jobs' \<Rightarrow> jobList_hosts app hs jobs')"

definition jobList :: "ct_App \<Rightarrow> clusterClient \<Rightarrow> run" where
  "jobList app cc =
     emit [CallListHosts]
       (case ListHosts cc of
          Inl err \<Rightarrow> ([RError (ErrorString err)], Returned)
        | Inr hosts \<Rightarrow>
            (case jobList_hosts app hosts [] of
               None \<Rightarrow> ([Panic ''nil pointer dereference''], Panicked)
             | Some jobs \<Rightarrow> ([RJSON 200 (JobsBody jobs)], Returned)))"

section \<open>The SSE log writer\<close>

definition nl :: string where
  "nl = [CHR 0x0A]"

text \<open>
  The response writer \<open>w\<close>: the calls made on it so far, and the outcomes of the
  \<open>Write\<close> calls still to come (an empty script: every write succeeds).
  \<open>WriteFail n msg\<close> accepts \<open>n\<close> bytes and returns the error \<open>msg\<close>.
\<close>

datatype write_result = WriteOK | WriteFail nat string

record io_Writer =
  calls :: "event list"
  script :: "write_result list"

definition io_Write :: "string \<Rightarrow> io_Writer \<Rightarrow> (nat \<times> string option) \<times> io_Writer" where
  "io_Write b w =
     (case script w of
        [] \<Rightarrow> ((length b, None), w\<lparr>calls := calls w @ [WWrite b]\<rparr>)
      | WriteOK # rs \<Rightarrow> ((length b, None), w\<lparr>calls := calls w @ [WWrite b], script := rs\<rparr>)
      | WriteFail n msg # rs \<Rightarrow>
          ((min n (length b), Some msg), w\<lparr>calls := calls w @ [WWrite (take n b)], script := rs\<rparr>))"

record sseLogChunk =
  chunk_Stream :: string
  chunk_Data :: string

text \<open>
  \<open>sseLogWriter\<close>: the embedded writer, the JSON encoder over the same writer, and the
  mutex. \<open>Encoder\<close> is the marshalling of \<open>encoding/json\<close> for an \<open>sseLogChunk\<close>
  (an object with the fields \<open>stream\<close> and \<open>data\<close>), a parameter of the model.
\<close>

record sseLogWriter =
  Writer :: io_Writer
  Encoder :: "sseLogChunk \<Rightarrow> string"
  Mutex :: bool

definition NewSSELogWriter :: "io_Writer \<Rightarrow> (sseLogChunk \<Rightarrow> string) \<Rightarrow> sseLogWriter" where
  "NewSSELogWriter w enc = \<lparr>Writer = w, Encoder = enc, Mutex = False\<rparr>"

text \<open>A stream handle; the writer it points to is the state passed to \<open>Write\<close>.\<close>

record sseLogStreamWriter =
  stream_name :: string

definition Stream :: "string \<Rightarrow> sseLogStreamWriter" where
  "Stream name = \<lparr>stream_name = name\<rparr>"

text \<open>\<open>json.Encoder.Encode\<close>: the marshalled value and a newline, in one write.\<close>

definition Encode :: "sseLogChunk \<Rightarrow> sseLogWriter \<Rightarrow> string option \<times> sseLogWriter" where
  "Encode v w =
     (let (r, wr) = io_Write (Encoder w v @ nl) (Writer w) in (snd r, w\<lparr>Writer := wr\<rparr>))"

definition log_call :: "event \<Rightarrow> sseLogWriter \<Rightarrow> sseLogWriter" where
  "log_call e w = w\<lparr>Writer := (Writer w)\<lparr>calls := calls (Writer w) @ [e]\<rparr>\<rparr>"

definition Lock :: "sseLogWriter \<Rightarrow> sseLogWriter" where
  "Lock w = (log_call MutexLock w)\<lparr>Mutex := True\<rparr>"

definition Unlock :: "sseLogWriter \<Rightarrow> sseLogWriter" where
  "Unlock w = (log_call MutexUnlock w)\<lparr>Mutex := False\<rparr>"

text \<open>
  \<open>sseLogStreamWriter.Write\<close>. The result is \<open>None\<close> when the mutex is held on entry:
  the call does not return. The deferred \<open>Unlock\<close> runs on each return.
\<close>

definition Write :: "sseLogStreamWriter \<Rightarrow> string \<Rightarrow> sseLogWriter \<Rightarrow> (nat \<times> string option) option \<times> sseLogWriter" where
  "Write h p w =
     (if Mutex w then (None, w)
      else
        let w1 = Lock w;
            (r1, wr) = io_Write ''data: '' (Writer w1);
            w2 = w1\<lparr>Writer := wr\<rparr> in
        case snd r1 of
          Some err \<Rightarrow> (Some (0, Some err), Unlock w2)
        | None \<Rightarrow>
            let (e2, w3) = Encode \<lparr>chunk_Stream = stream_name h, chunk_Data = p\<rparr> w2 in
            (case e2 of
               Some err \<Rightarrow> (Some (0, Some err), Unlock w3)
             | None \<Rightarrow>
                 let (r3, wr') = io_Write nl (Writer w3) in
                 (Some (length p, snd r3), Unlock (w3\<lparr>Writer := wr'\<rparr>))))"

section \<open>jobLog\<close>

text \<open>\<open>strings.Contains\<close>.\<close>

fun strings_Contains :: "string \<Rightarrow> string \<Rightarrow> bool" where
  "strings_Contains [] sub = (sub = [])"
| "strings_Contains (c # cs) sub = (take (length sub) (c # cs) = sub \<or> strings_Contains cs sub)"

text \<open>
  \<open>demultiplex.Copy(stdout, stderr, stream)\<close> of the go-flynn library, at its boundary: one
  \<open>Write\<close> on the handle of each frame's stream, in order, until the channel ends, a frame
  names an unknown stream, or a write fails. The outer \<open>None\<close>: a write did not return.
\<close>

fun demultiplex_Copy ::
  "sseLogStreamWriter \<Rightarrow> sseLogStreamWriter \<Rightarrow> (nat \<times> string) list \<Rightarrow> sseLogWriter \<Rightarrow> string option option \<times> sseLogWriter" where
  "demultiplex_Copy out err [] w = (Some None, w)"
| "demultiplex_Copy out err (f # fs) w =
     (if fst f \<noteq> 1 \<and> fst f \<noteq> 2 then (Some (Some ''unrecognized input header''), w)
      else
        case Write (if fst f = 1 then out else err) (snd f) w of
          (None, w') \<Rightarrow> (None, w')
        | (Some (n, Some e), w') \<Rightarrow> (Some (Some e), w')
        | (Some (n, None), w') \<Rightarrow> demultiplex_Copy out err fs w')"

text \<open>\<open>io.Copy(w, stream)\<close>: each chunk read is written; a failed write ends the copy.\<close>

fun io_Copy :: "string list \<Rightarrow> io_Writer \<Rightarrow> io_Writer" where
  "io_Copy [] w = w"
| "io_Copy (c # cs) w =
     (case io_Write c w of
        ((n, Some e), w') \<Rightarrow> w'
      | ((n, None), w') \<Rightarrow> io_Copy cs w')"

definition eof_event :: string where
  "eof_event = ''event: eof'' @ nl @ ''data: {}'' @ nl @ nl"

text \<open>Lines 57 to 63: the attach request of a log read.\<close>

definition jobLog_attachReq :: "http_Request \<Rightarrow> Params \<Rightarrow> AttachReq" where
  "jobLog_attachReq req params =
     \<lparr>JobID = param params ''jobs_id'',
      Flags = {AttachFlagStdout, AttachFlagStderr, AttachFlagLogs}
              \<union> (if tail req \<noteq> [] then {AttachFlagStream} else {}),
      Height = 0, Width = 0\<rparr>"

definition jobLog ::
  "http_Request \<Rightarrow> Params \<Rightarrow> cluster_Host \<Rightarrow> (sseLogChunk \<Rightarrow> string) \<Rightarrow> write_result list \<Rightarrow> run" where
  "jobLog req params cluster enc outcomes =
     (let attachReq = jobLog_attachReq req params in
      emit [ClientAttach (peer cluster) attachReq False]
        (case Attach cluster attachReq False of
           Inl err \<Rightarrow> ([RError (ErrorString err)], Returned)
         | Inr stream \<Rightarrow>
             deferred [AttachConnClose]
               (if strings_Contains (Accept req) ''text/event-stream'' then
                  let w = \<lparr>calls = [HeaderSet ''Content-Type'' ''text/event-stream; charset=utf-8''],
                           script = outcomes\<rparr>;
                      ssew = NewSSELogWriter w enc;
                      (r, ssew') = demultiplex_Copy (Stream ''stdout'') (Stream ''stderr'')
                                     (demux_writes stream) ssew
                  in if r = None then (calls (Writer ssew'), Blocked)
                     else (calls (snd (io_Write eof_event (Writer ssew'))), Returned)
                else
                  (calls (io_Copy (raw_reads stream) \<lparr>calls = [], script = outcomes\<rparr>), Returned))))"

section \<open>The duplex proxy of runJob\<close>

text \<open>
  The two goroutines \<open>cp(conn, attachConn)\<close> and \<open>cp(attachConn, conn)\<close> and the handler
  waiting on \<open>done\<close>, as an interleaving: a schedule says which of them takes the next
  step. \<open>ToConn\<close> is the loop that writes to the hijacked connection, \<open>ToAttach\<close> the one
  that writes to the attach channel.
\<close>

datatype loop = ToConn | ToAttach

datatype pc = Copying | Closing | Signalling | Finished

text \<open>
  \<open>Step l\<close>: loop \<open>l\<close> takes a step. \<open>CopyFails l\<close>: the \<open>io.Copy\<close> of loop \<open>l\<close>
  returns now with an error. \<open>Handler\<close>: the handler tries to receive from \<open>done\<close>.
\<close>

datatype sched = Step loop | CopyFails loop | Handler

record proxy =
  from_attach :: "string list"
  from_conn :: "string list"
  pc_to_conn :: pc
  pc_to_attach :: pc
  done_chan :: nat
  received :: nat
  ptrace :: "event list"

definition proxy_init :: "string list \<Rightarrow> string list \<Rightarrow> proxy" where
  "proxy_init job_output client_input =
     \<lparr>from_attach = job_output, from_conn = client_input,
      pc_to_conn = Copying, pc_to_attach = Copying,
      done_chan = 0, received = 0, ptrace = []\<rparr>"

fun proxy_step :: "sched \<Rightarrow> proxy \<Rightarrow> proxy" where
  "proxy_step (Step ToConn) p =
     (case pc_to_conn p of
        Copying \<Rightarrow>
          (case from_attach p of
             [] \<Rightarrow> p\<lparr>pc_to_conn := Closing\<rparr>
           | c # cs \<Rightarrow> p\<lparr>from_attach := cs, ptrace := ptrace p @ [ConnWrite c]\<rparr>)
      | Closing \<Rightarrow> p\<lparr>pc_to_conn := Signalling, ptrace := ptrace p @ [ConnCloseWrite]\<rparr>
      | Signalling \<Rightarrow> p\<lparr>pc_to_conn := Finished, done_chan := done_chan p + 1\<rparr>
      | Finished \<Rightarrow> p)"
| "proxy_step (Step ToAttach) p =
     (case pc_to_attach p of
        Copying \<Rightarrow>
          (case from_conn p of
             [] \<Rightarrow> p\<lparr>pc_to_attach := Closing\<rparr>
           | c # cs \<Rightarrow> p\<lparr>from_conn := cs, ptrace := ptrace p @ [AttachConnWrite c]\<rparr>)
      | Closing \<Rightarrow> p\<lparr>pc_to_attach := Signalling, ptrace := ptrace p @ [AttachConnCloseWrite]\<rparr>
      | Signalling \<Rightarrow> p\<lparr>pc_to_attach := Finished, done_chan := done_chan p + 1\<rparr>
      | Finished \<Rightarrow> p)"
| "proxy_step (CopyFails ToConn) p =
     (if pc_to_conn p = Copying then p\<lparr>pc_to_conn := Closing\<rparr> else p)"
| "proxy_step (CopyFails ToAttach) p =
     (if pc_to_attach p = Copying then p\<lparr>pc_to_attach := Closing\<rparr> else p)"
| "proxy_step Handler p =
     (if received p < 2 \<and> 0 < done_chan p
      then p\<lparr>done_chan := done_chan p - 1, received := received p + 1\<rparr>
      else p)"

definition proxy_run :: "sched list \<Rightarrow> proxy \<Rightarrow> proxy" where
  "proxy_run sch p = fold proxy_step sch p"

text \<open>Lines 264 to 275: the handler returns once it has received both signals.\<close>

definition duplex :: "sched list \<Rightarrow> string list \<Rightarrow> string list \<Rightarrow> run" where
  "duplex sch job_output client_input =
     (let p = proxy_run sch (proxy_init job_output client_input) in
      (ptrace p, if received p = 2 then Returned else Blocked))"

section \<open>runJob\<close>

text \<open>
  What \<open>runJob\<close> takes from outside this file: the release and artifact repositories,
  \<open>utils.DockerImage\<close>, \<open>utils.FormatEnv\<close>, the ID that \<open>cluster.RandomJobID\<close> returns
  for this request, the outcome of hijacking the connection, the chunks the client sends
  on the hijacked connection, and the schedule of the proxy.
\<close>

record runJob_env =
  releases_Get :: "string \<Rightarrow> error + ct_Release"
  artifacts_Get :: "string \<Rightarrow> error + ct_Artifact"
  utils_DockerImage :: "string \<Rightarrow> string + string"
  utils_FormatEnv :: "(string \<times> string) list \<Rightarrow> (string \<times> string) list \<Rightarrow> string list"
  cluster_RandomJobID :: string
  hijack_error :: "string option"
  conn_reads :: "string list"
  schedule :: "sched list"

text \<open>Lines 183 to 204: the job record.\<close>

definition build_job ::
  "ct_App \<Rightarrow> ct_NewJob \<Rightarrow> runJob_env \<Rightarrow> ct_Release \<Rightarrow> string \<Rightarrow> bool \<Rightarrow> host_Job" where
  "build_job app newJob env release img attach =
     \<lparr>job_ID = cluster_RandomJobID env,
      Attributes = [''flynn-controller.app'' \<mapsto> app_ID app,
                    ''flynn-controller.release'' \<mapsto> release_ID release],
      Config = Some \<lparr>Cmd = new_Cmd newJob,
                      Env = utils_FormatEnv env (release_Env release) (new_Env newJob),
                      Image = img,
                      AttachStdout = True,
                      AttachStderr = True,
                      AttachStdin = attach,
                      StdinOnce = attach,
                      OpenStdin = attach,
                      Tty = TTY newJob\<rparr>\<rparr>"

text \<open>
  Lines 244 to 282: submission and the response. \<open>sess\<close> is the attach session when
  \<open>attach\<close> holds, \<open>None\<close> otherwise. \<open>AddJobs\<close> is called with the one-entry map
  from the host to the one job.
\<close>

definition runJob_submit ::
  "ct_NewJob \<Rightarrow> runJob_env \<Rightarrow> clusterClient \<Rightarrow> string \<Rightarrow> host_Job \<Rightarrow> attach_session option \<Rightarrow> run" where
  "runJob_submit newJob env cl hostID job sess =
     emit [CallAddJobs hostID job]
       (case AddJobs cl hostID job of
          Some err \<Rightarrow> ([RError (ErrorString (''schedule failed: '' @ err))], Returned)
        | None \<Rightarrow>
            (case sess of
               Some s \<Rightarrow>
                 emit [CallAttachWait]
                   (case wait_result s of
                      Some err \<Rightarrow> ([RError (ErrorString (''attach wait failed: '' @ err))], Returned)
                    | None \<Rightarrow>
                        emit [HeaderSet ''Content-Type'' ''application/vnd.flynn.attach'',
                              HeaderSet ''Content-Length'' ''0'',
                              WriteHeader 101,
                              Hijack]
                          (case hijack_error env of
                             Some err \<Rightarrow> ([Panic err], Panicked)
                           | None \<Rightarrow>
                               deferred [ConnClose]
                                 (duplex (schedule env) (raw_reads s) (conn_reads env))))
             | None \<Rightarrow>
                 ([RJSON 200 (JobBody \<lparr>ID = hostID @ ''-'' @ job_ID job,
                                        Type = [],
                                        ReleaseID = new_ReleaseID newJob,
                                        job_Cmd = new_Cmd newJob\<rparr>)], Returned)))"

text \<open>Lines 211 to 215: the first key the iteration over the map yields, or the empty string.\<close>

definition pick_host :: "(string \<times> host_Host) list \<Rightarrow> string" where
  "pick_host hosts = (case hosts of [] \<Rightarrow> [] | kh # _ \<Rightarrow> fst kh)"

text \<open>Lines 224 to 229: the attach request for the job that is about to be submitted.\<close>

definition runJob_attachReq :: "host_Job \<Rightarrow> ct_NewJob \<Rightarrow> AttachReq" where
  "runJob_attachReq job newJob =
     \<lparr>JobID = job_ID job,
      Flags = {AttachFlagStdout, AttachFlagStderr, AttachFlagStdin, AttachFlagStream},
      Height = Lines newJob,
      Width = Columns newJob\<rparr>"

definition runJob ::
  "ct_App \<Rightarrow> ct_NewJob \<Rightarrow> runJob_env \<Rightarrow> clusterClient \<Rightarrow> http_Request \<Rightarrow> run" where
  "runJob app newJob env cl req =
     emit [ReleasesGet (new_ReleaseID newJob)]
       (case releases_Get env (new_ReleaseID newJob) of
          Inl err \<Rightarrow> ([RError err], Returned)
        | Inr release \<Rightarrow>
     emit [ArtifactsGet (ArtifactID release)]
       (case artifacts_Get env (ArtifactID release) of
          Inl err \<Rightarrow> ([RError err], Returned)
        | Inr artifact \<Rightarrow>
       (case utils_DockerImage env (URI artifact) of
          Inl err \<Rightarrow>
            ([LogPrintf ''error parsing artifact uri'' [err],
              RError (ValidationError ''artifact.uri'' ''is invalid'')], Returned)
        | Inr img \<Rightarrow>
     (let attach = strings_Contains (Accept req) ''application/vnd.flynn.attach'';
          job = build_job app newJob env release img attach in
      emit [CallListHosts]
       (case ListHosts cl of
          Inl err \<Rightarrow> ([RError (ErrorString err)], Returned)
        | Inr hosts \<Rightarrow>
            (let hostID = pick_host hosts in
             if hostID = [] then ([RError (ErrorString ''no hosts found'')], Returned)
             else if attach then
               (let attachReq = runJob_attachReq job newJob in
                emit [CallDialHost hostID]
                  (case DialHost cl hostID of
                     Inl err \<Rightarrow>
                       ([RError (ErrorString (''lorne connect failed: '' @ err))], Returned)
                   | Inr client \<Rightarrow>
                       deferred [ClientClose (peer client)]
                         (emit [ClientAttach (peer client) attachReq True]
                            (case Attach client attachReq True of
                               Inl err \<Rightarrow>
                                 ([RError (ErrorString (''attach failed: '' @ err))], Returned)
                             | Inr s \<Rightarrow>
                                 deferred [AttachConnClose]
                                   (runJob_submit newJob env cl hostID job (Some s))))))
             else runJob_submit newJob env cl hostID job None))))))"

text \<open>The bytes the response body received: the writes on \<open>w\<close>, concatenated.\<close>

fun body :: "event list \<Rightarrow> string" where
  "body [] = []"
| "body (WWrite b # es) = b @ body es"
| "body (e # es) = body es"

section \<open>Notions used to state the properties\<close>

text \<open>
  The listing as the specification words it: over all hosts and their jobs, the jobs whose
  \<open>app\<close> annotation is the application's ID, each as a summary.
\<close>

definition spec_matches :: "ct_App \<Rightarrow> host_Job \<Rightarrow> bool" where
  "spec_matches app j = (attr j ''flynn-controller.app'' = app_ID app)"

definition spec_summary :: "host_Host \<Rightarrow> host_Job \<Rightarrow> ct_Job" where
  "spec_summary h j =
     \<lparr>ID = host_ID h @ ''-'' @ job_ID j,
      Type = attr j ''flynn-controller.type'',
      ReleaseID = attr j ''flynn-controller.release'',
      job_Cmd = (if attr j ''flynn-controller.type'' = []
                 then (case Config j of None \<Rightarrow> [] | Some c \<Rightarrow> Cmd c) else [])\<rparr>"

definition spec_listing :: "ct_App \<Rightarrow> (string \<times> host_Host) list \<Rightarrow> ct_Job list" where
  "spec_listing app hosts =
     concat (map (\<lambda>kh. map (spec_summary (snd kh)) (filter (spec_matches app) (Jobs (snd kh)))) hosts)"

text \<open>
  A snapshot is configured for an application when each of its jobs that the listing reads
  the command of (a job of the application with no type) has a config.
\<close>

definition has_config :: "ct_App \<Rightarrow> host_Job \<Rightarrow> bool" where
  "has_config app j =
     (spec_matches app j \<and> attr j ''flynn-controller.type'' = [] \<longrightarrow> Config j \<noteq> None)"

definition configured :: "ct_App \<Rightarrow> (string \<times> host_Host) list \<Rightarrow> bool" where
  "configured app hosts = list_all (\<lambda>kh. list_all (has_config app) (Jobs (snd kh))) hosts"

text \<open>The next \<open>n\<close> writes on the writer succeed.\<close>

definition accepting :: "nat \<Rightarrow> io_Writer \<Rightarrow> bool" where
  "accepting n w = list_all (\<lambda>r. r = WriteOK) (take n (script w))"

text \<open>One frame of the event stream, as bytes and as the calls that produce it.\<close>

definition spec_frame :: "(sseLogChunk \<Rightarrow> string) \<Rightarrow> string \<Rightarrow> string \<Rightarrow> string" where
  "spec_frame enc name p = ''data: '' @ enc \<lparr>chunk_Stream = name, chunk_Data = p\<rparr> @ nl @ nl"

definition frame_calls :: "(sseLogChunk \<Rightarrow> string) \<Rightarrow> string \<Rightarrow> string \<Rightarrow> event list" where
  "frame_calls enc name p =
     [MutexLock, WWrite ''data: '', WWrite (enc \<lparr>chunk_Stream = name, chunk_Data = p\<rparr> @ nl),
      WWrite nl, MutexUnlock]"

definition stream_of :: "nat \<Rightarrow> string" where
  "stream_of fd = (if fd = 1 then ''stdout'' else ''stderr'')"

text \<open>The events of the two copy loops.\<close>

definition is_proxy_event :: "event \<Rightarrow> bool" where
  "is_proxy_event e =
     (case e of ConnWrite b \<Rightarrow> True | AttachConnWrite b \<Rightarrow> True
      | ConnCloseWrite \<Rightarrow> True | AttachConnCloseWrite \<Rightarrow> True | _ \<Rightarrow> False)"

text \<open>A loop has made its half-close once it is past \<open>Closing\<close>.\<close>

definition left_copy :: "pc \<Rightarrow> bool" where
  "left_copy c = (c = Signalling \<or> c = Finished)"

definition proxy_inv :: "proxy \<Rightarrow> bool" where
  "proxy_inv p =
     (list_all is_proxy_event (ptrace p)
      \<and> count_list (ptrace p) ConnCloseWrite = (if left_copy (pc_to_conn p) then 1 else 0)
      \<and> count_list (ptrace p) AttachConnCloseWrite = (if left_copy (pc_to_attach p) then 1 else 0)
      \<and> done_chan p + received p =
          (if pc_to_conn p = Finished then 1 else 0) + (if pc_to_attach p = Finished then 1 else 0))"

text \<open>Calls that open a dial, open an attach session, or submit a job.\<close>

definition attaches_or_submits :: "event \<Rightarrow> bool" where
  "attaches_or_submits e =
     (case e of CallDialHost h \<Rightarrow> True | ClientAttach h r w \<Rightarrow> True
      | CallAddJobs h j \<Rightarrow> True | _ \<Rightarrow> False)"

text \<open>Events of \<open>runJob_submit\<close>: it neither dials, attaches, nor closes a dial or a session.\<close>

definition is_submit_event :: "event \<Rightarrow> bool" where
  "is_submit_event e =
     (case e of CallDialHost h \<Rightarrow> False | ClientAttach h r w \<Rightarrow> False
      | ClientClose h \<Rightarrow> False | AttachConnClose \<Rightarrow> False | _ \<Rightarrow> True)"

definition is_ClientClose :: "event \<Rightarrow> bool" where
  "is_ClientClose e = (case e of ClientClose h \<Rightarrow> True | _ \<Rightarrow> False)"

text \<open>How many dials and attach sessions a run closed.\<close>

definition dial_closes :: "event list \<Rightarrow> nat" where
  "dial_closes tr = length (filter is_ClientClose tr)"

definition session_closes :: "event list \<Rightarrow> nat" where
  "session_closes tr = count_list tr AttachConnClose"

text \<open>
  How many dials and attach sessions a run opened: its calls, replayed against the cluster
  client; \<open>cur\<close> is the host dialed last.
\<close>

fun opened_dials :: "clusterClient \<Rightarrow> event list \<Rightarrow> nat" where
  "opened_dials cl [] = 0"
| "opened_dials cl (e # es) =
     (case e of
        CallDialHost h \<Rightarrow> (case DialHost cl h of Inr c \<Rightarrow> 1 | Inl x \<Rightarrow> 0) + opened_dials cl es
      | _ \<Rightarrow> opened_dials cl es)"

fun opened_sessions :: "clusterClient \<Rightarrow> cluster_Host option \<Rightarrow> event list \<Rightarrow> nat" where
  "opened_sessions cl cur [] = 0"
| "opened_sessions cl cur (e # es) =
     (case e of
        CallDialHost h \<Rightarrow>
          opened_sessions cl (case DialHost cl h of Inr c \<Rightarrow> Some c | Inl x \<Rightarrow> None) es
      | ClientAttach p r w \<Rightarrow>
          (case cur of
             Some c \<Rightarrow> (case Attach c r w of Inr s \<Rightarrow> 1 | Inl x \<Rightarrow> 0)
           | None \<Rightarrow> 0) + opened_sessions cl cur es
      | _ \<Rightarrow> opened_sessions cl cur es)"

text \<open>Whether a run reported a \<open>ValidationError\<close>.\<close>

definition reports_ValidationError :: "event list \<Rightarrow> bool" where
  "reports_ValidationError tr =
     list_ex (\<lambda>e. case e of RError (ValidationError f m) \<Rightarrow> True | _ \<Rightarrow> False) tr"

section \<open>Example collaborators\<close>

definition ex_session :: attach_session where
  "ex_session = \<lparr>raw_reads = [''hello''], demux_writes = [(1, ''hello'')], wait_result = None\<rparr>"

definition ex_client :: cluster_Host where
  "ex_client = \<lparr>peer = ''h1'', Attach = (\<lambda>req wait. Inr ex_session), StopJob = (\<lambda>jobid. None)\<rparr>"

definition ex_client_refusing :: cluster_Host where
  "ex_client_refusing =
     \<lparr>peer = ''h1'', Attach = (\<lambda>req wait. Inl ''refused''), StopJob = (\<lambda>jobid. None)\<rparr>"

definition ex_cluster :: clusterClient where
  "ex_cluster =
     \<lparr>ListHosts = Inr [(''h1'', \<lparr>host_ID = ''h1'', Jobs = []\<rparr>)],
      DialHost = (\<lambda>h. if h = ''h1'' then Inr ex_client else Inl ''unknown host''),
      AddJobs = (\<lambda>h j. None)\<rparr>"

definition ex_cluster_schedule_fails :: clusterClient where
  "ex_cluster_schedule_fails = ex_cluster\<lparr>AddJobs := (\<lambda>h j. Some ''boom'')\<rparr>"

definition ex_cluster_attach_fails :: clusterClient where
  "ex_cluster_attach_fails = ex_cluster\<lparr>DialHost := (\<lambda>h. Inr ex_client_refusing)\<rparr>"

definition ex_cluster_dial_fails :: clusterClient where
  "ex_cluster_dial_fails = ex_cluster\<lparr>DialHost := (\<lambda>h. Inl ''unreachable'')\<rparr>"

definition ex_cluster_empty :: clusterClient where
  "ex_cluster_empty = ex_cluster\<lparr>ListHosts := Inr []\<rparr>"

definition ex_app :: ct_App where
  "ex_app = \<lparr>app_ID = ''A''\<rparr>"

definition ex_newJob :: ct_NewJob where
  "ex_newJob = \<lparr>new_ReleaseID = ''rel'', new_Cmd = [''ls''], new_Env = [], TTY = False,
                 Columns = 80, Lines = 24\<rparr>"

definition ex_release :: ct_Release where
  "ex_release = \<lparr>release_ID = ''rel'', ArtifactID = ''art'', release_Env = []\<rparr>"

definition ex_artifact :: ct_Artifact where
  "ex_artifact = \<lparr>URI = ''docker://img''\<rparr>"

text \<open>A schedule in which both loops run to their end and the handler receives both signals.\<close>

definition ex_schedule :: "sched list" where
  "ex_schedule =
     [Step ToConn, Step ToAttach, Step ToAttach, Step ToConn, Step ToAttach, Step ToAttach,
      Handler, Step ToConn, Step ToConn, Handler]"

definition ex_env :: runJob_env where
  "ex_env =
     \<lparr>releases_Get = (\<lambda>i. if i = ''rel'' then Inr ex_release else Inl ErrNotFound),
      artifacts_Get = (\<lambda>i. if i = ''art'' then Inr ex_artifact else Inl ErrNotFound),
      utils_DockerImage = (\<lambda>u. if u = ''docker://img'' then Inr ''img'' else Inl ''bad uri''),
      utils_FormatEnv = (\<lambda>base over. []),
      cluster_RandomJobID = ''j1'',
      hijack_error = None,
      conn_reads = [''ls''],
      schedule = ex_schedule\<rparr>"

text \<open>The same request under a schedule that ends while the loops are still running.\<close>

definition ex_env_waiting :: runJob_env where
  "ex_env_waiting = ex_env\<lparr>schedule := [Step ToConn, Handler]\<rparr>"

definition ex_env_no_release :: runJob_env where
  "ex_env_no_release = ex_env\<lparr>releases_Get := (\<lambda>i. Inl ErrNotFound)\<rparr>"

definition ex_env_no_artifact :: runJob_env where
  "ex_env_no_artifact = ex_env\<lparr>artifacts_Get := (\<lambda>i. Inl ErrNotFound)\<rparr>"

definition ex_env_bad_uri :: runJob_env where
  "ex_env_bad_uri = ex_env\<lparr>utils_DockerImage := (\<lambda>u. Inl ''bad uri'')\<rparr>"

definition ex_job :: "bool \<Rightarrow> host_Job" where
  "ex_job attach = build_job ex_app ex_newJob ex_env ex_release ''img'' attach"

definition ex_req_attach :: http_Request where
  "ex_req_attach = \<lparr>Accept = ''application/vnd.flynn.attach'', tail = []\<rparr>"

definition ex_req_json :: http_Request where
  "ex_req_json = \<lparr>Accept = ''application/json'', tail = []\<rparr>"

definition ex_req_sse :: http_Request where
  "ex_req_sse = \<lparr>Accept = ''text/event-stream'', tail = []\<rparr>"

definition ex_params :: Params where
  "ex_params = [''jobs_id'' \<mapsto> ''j1'']"

text \<open>A stand-in for the JSON marshalling, enough for strings that need no escaping.\<close>

definition ex_encoder :: "sseLogChunk \<Rightarrow> string" where
  "ex_encoder c =
     ''{'' @ [CHR 0x22] @ ''stream'' @ [CHR 0x22] @ '':'' @ [CHR 0x22] @ chunk_Stream c @ [CHR 0x22]
     @ '','' @ [CHR 0x22] @ ''data'' @ [CHR 0x22] @ '':'' @ [CHR 0x22] @ chunk_Data c @ [CHR 0x22] @ ''}''"

definition ex_writer :: sseLogWriter where
  "ex_writer = NewSSELogWriter \<lparr>calls = [], script = []\<rparr> ex_encoder"

text \<open>
  The snapshot of the listing example: on \<open>h1\<close> a web job of \<open>A\<close>, on \<open>h2\<close> a job of
  \<open>B\<close> and a job of \<open>A\<close> with no type, each with a config.
\<close>

definition ex_config :: docker_Config where
  "ex_config =
     \<lparr>Cmd = [''ls''], Env = [], Image = ''img'', AttachStdout = True, AttachStderr = True,
      AttachStdin = False, StdinOnce = False, OpenStdin = False, Tty = False\<rparr>"

definition ex_job_web :: host_Job where
  "ex_job_web =
     \<lparr>job_ID = ''j1'',
      Attributes = [''flynn-controller.app'' \<mapsto> ''A'', ''flynn-controller.type'' \<mapsto> ''web'',
                    ''flynn-controller.release'' \<mapsto> ''rel''],
      Config = Some ex_config\<rparr>"

definition ex_job_other :: host_Job where
  "ex_job_other =
     \<lparr>job_ID = ''j2'',
      Attributes = [''flynn-controller.app'' \<mapsto> ''B''],
      Config = Some ex_config\<rparr>"

definition ex_job_adhoc :: host_Job where
  "ex_job_adhoc =
     \<lparr>job_ID = ''j3'',
      Attributes = [''flynn-controller.app'' \<mapsto> ''A'', ''flynn-controller.release'' \<mapsto> ''rel''],
      Config = Some ex_config\<rparr>"

definition ex_hosts :: "(string \<times> host_Host) list" where
  "ex_hosts =
     [(''h1'', \<lparr>host_ID = ''h1'', Jobs = [ex_job_web]\<rparr>),
      (''h2'', \<lparr>host_ID = ''h2'', Jobs = [ex_job_other, ex_job_adhoc]\<rparr>)]"

text \<open>A snapshot with a job of \<open>A\<close> that has no type and no config.\<close>

definition ex_job_no_config :: host_Job where
  "ex_job_no_config = ex_job_adhoc\<lparr>Config := None\<rparr>"

definition ex_hosts_no_config :: "(string \<times> host_Host) list" where
  "ex_hosts_no_config = [(''h1'', \<lparr>host_ID = ''h1'', Jobs = [ex_job_no_config]\<rparr>)]"

definition ex_cluster_no_config :: clusterClient where
  "ex_cluster_no_config = ex_cluster\<lparr>ListHosts := Inr ex_hosts_no_config\<rparr>"

definition ex_cluster_listing :: clusterClient where
  "ex_cluster_listing = ex_cluster\<lparr>ListHosts := Inr ex_hosts\<rparr>"

text \<open>A snapshot that holds the job the example dispatch submits.\<close>

definition ex_hosts_dispatched :: "(string \<times> host_Host) list" where
  "ex_hosts_dispatched = [(''h1'', \<lparr>host_ID = ''h1'', Jobs = [ex_job False]\<rparr>)]"

definition ex_cluster_dispatched :: clusterClient where
  "ex_cluster_dispatched = ex_cluster\<lparr>ListHosts := Inr ex_hosts_dispatched\<rparr>"

text \<open>A composite ID for a job \<open>c\<close> on a host whose own ID is \<open>a-b\<close>.\<close>

definition ex_params_dashed_host :: Params where
  "ex_params_dashed_host = [''jobs_id'' \<mapsto> ''a-b'' @ ''-'' @ ''c'']"

section \<open>Composite job IDs\<close>

lemma SplitN_no_sep: "c \<notin> set s \<Longrightarrow> strings_SplitN s c 2 = [s]"
  by (simp add: numeral_2_eq_2)

lemma SplitN_first_sep:
  "c \<notin> set h \<Longrightarrow> strings_SplitN (h @ c # rest) c 2 = [h, rest]"
proof -
  assume a: "c \<notin> set h"
  have t: "takeWhile (\<lambda>x. x \<noteq> c) (h @ c # rest) = h" using a by (induction h) auto
  have d: "dropWhile (\<lambda>x. x \<noteq> c) (h @ c # rest) = c # rest" using a by (induction h) auto
  show ?thesis by (simp add: numeral_2_eq_2 t d)
qed

lemma parseJobID_valid:
  assumes "param params ''jobs_id'' = h @ ''-'' @ rest" "h \<noteq> []" "rest \<noteq> []" "CHR ''-'' \<notin> set h"
  shows "parseJobID params = (h, rest)"
  using assms by (simp add: parseJobID_def SplitN_first_sep)

lemma parseJobID_invalid:
  assumes "param params ''jobs_id'' = s"
    and "CHR ''-'' \<notin> set s \<or> (\<exists>r. s = CHR ''-'' # r) \<or> (\<exists>l. CHR ''-'' \<notin> set l \<and> s = l @ ''-'')"
  shows "parseJobID params = ([], [])"
proof -
  consider (a) "CHR ''-'' \<notin> set s" | (b) r where "s = CHR ''-'' # r"
    | (c) l where "CHR ''-'' \<notin> set l" "s = l @ ''-''"
    using assms(2) by blast
  then show ?thesis
  proof cases
    case a
    then show ?thesis using assms(1) by (simp add: parseJobID_def SplitN_no_sep)
  next
    case b
    then show ?thesis using assms(1) SplitN_first_sep [of "CHR ''-''" "[]" r]
      by (simp add: parseJobID_def)
  next
    case c
    then show ?thesis using assms(1) SplitN_first_sep [of "CHR ''-''" l "[]"]
      by (simp add: parseJobID_def)
  qed
qed

text \<open>
  C1, as stated, at \<open>h = a-b\<close> and \<open>rest = c\<close>: both are non-empty, and the ID
  \<open>a-b-c\<close> parses to \<open>(a, b-c)\<close>, not to \<open>(h, rest)\<close>.
\<close>

theorem parseJobID_dashed_host:
  "param ex_params_dashed_host ''jobs_id'' = ''a-b'' @ ''-'' @ ''c''
   \<and> ''a-b'' \<noteq> [] \<and> ''c'' \<noteq> []
   \<and> parseJobID ex_params_dashed_host = (''a'', ''b-c'')
   \<and> parseJobID ex_params_dashed_host \<noteq> (''a-b'', ''c'')"
  by (simp add: ex_params_dashed_host_def param_def parseJobID_def numeral_2_eq_2)

text \<open>
  C1, amended. A composite ID whose first \<open>-\<close> has the non-empty \<open>h\<close> before it and the non-empty
  \<open>rest\<close> after it (so \<open>h\<close> has no \<open>-\<close>, while \<open>rest\<close> may have more) parses to exactly
  \<open>(h, rest)\<close>. For an ID with no \<open>-\<close>, or with nothing before or nothing after its first
  \<open>-\<close>, the middleware in front of the kill and log handlers reports \<open>ErrNotFound\<close> and
  returns; it dials no host, whatever the cluster client and the handler behind it are.
\<close>

theorem parseJobID_composite:
  "(param params ''jobs_id'' = h @ ''-'' @ rest \<and> h \<noteq> [] \<and> rest \<noteq> [] \<and> CHR ''-'' \<notin> set h
      \<longrightarrow> parseJobID params = (h, rest))
   \<and> (param params ''jobs_id'' = s \<and>
        (CHR ''-'' \<notin> set s \<or> (\<exists>r. s = CHR ''-'' # r) \<or> (\<exists>l. CHR ''-'' \<notin> set l \<and> s = l @ ''-''))
      \<longrightarrow> connectHostMiddleware cl params next =
            ([LogPrintf ''Unable to parse hostID from %q'' [s], RError ErrNotFound], Returned)
          \<and> (\<forall>e \<in> set (fst (connectHostMiddleware cl params next)). \<forall>x. e \<noteq> CallDialHost x))"
proof (intro conjI impI)
  assume "param params ''jobs_id'' = h @ ''-'' @ rest \<and> h \<noteq> [] \<and> rest \<noteq> [] \<and> CHR ''-'' \<notin> set h"
  then show "parseJobID params = (h, rest)" by (simp add: parseJobID_valid)
next
  assume a: "param params ''jobs_id'' = s \<and>
        (CHR ''-'' \<notin> set s \<or> (\<exists>r. s = CHR ''-'' # r) \<or> (\<exists>l. CHR ''-'' \<notin> set l \<and> s = l @ ''-''))"
  then have p: "parseJobID params = ([], [])" using parseJobID_invalid by blast
  show r: "connectHostMiddleware cl params next =
            ([LogPrintf ''Unable to parse hostID from %q'' [s], RError ErrNotFound], Returned)"
    using a by (simp add: connectHostMiddleware_def p)
  show "\<forall>e \<in> set (fst (connectHostMiddleware cl params next)). \<forall>x. e \<noteq> CallDialHost x"
    by (simp add: r)
qed

theorem parseJobID_composite_witness:
  "parseJobID [''jobs_id'' \<mapsto> ''h1-job-1''] = (''h1'', ''job-1'')
   \<and> connectHostMiddleware ex_cluster [''jobs_id'' \<mapsto> ''badid''] killJob =
       ([LogPrintf ''Unable to parse hostID from %q'' [''badid''], RError ErrNotFound], Returned)"
proof -
  have v: "param [''jobs_id'' \<mapsto> ''h1-job-1''] ''jobs_id'' = ''h1'' @ ''-'' @ ''job-1''
           \<and> ''h1'' \<noteq> [] \<and> ''job-1'' \<noteq> [] \<and> CHR ''-'' \<notin> set ''h1''"
    by (simp add: param_def)
  have b: "param [''jobs_id'' \<mapsto> ''badid''] ''jobs_id'' = ''badid'' \<and>
        (CHR ''-'' \<notin> set ''badid'' \<or> (\<exists>r. ''badid'' = CHR ''-'' # r)
         \<or> (\<exists>l. CHR ''-'' \<notin> set l \<and> ''badid'' = l @ ''-''))"
    by (simp add: param_def)
  from v b show ?thesis
    using parseJobID_composite [of "[''jobs_id'' \<mapsto> ''h1-job-1'']" "''h1''" "''job-1''" "''badid''" ex_cluster killJob]
          parseJobID_composite [of "[''jobs_id'' \<mapsto> ''badid'']" "''h1''" "''job-1''" "''badid''" ex_cluster killJob]
    by blast
qed

section \<open>Runs: events and status\<close>

lemma fst_emit [simp]: "fst (emit es r) = es @ fst r"
  by (simp add: emit_def)

lemma snd_emit [simp]: "snd (emit es r) = snd r"
  by (simp add: emit_def)

lemma fst_deferred [simp]: "fst (deferred es r) = (if snd r = Blocked then fst r else fst r @ es)"
  by (simp add: deferred_def)

lemma snd_deferred [simp]: "snd (deferred es r) = snd r"
  by (simp add: deferred_def)

lemma takeWhile_upto: "x \<notin> set xs \<Longrightarrow> takeWhile (\<lambda>e. e \<noteq> x) (xs @ x # ys) = xs"
  by (induction xs) auto

lemma dropWhile_from: "x \<notin> set xs \<Longrightarrow> dropWhile (\<lambda>e. e \<noteq> x) (xs @ x # ys) = x # ys"
  by (induction xs) auto

lemma count_one_mem: "count_list xs x = 1 \<Longrightarrow> x \<in> set xs"
  by (metis count_list_0_iff zero_neq_one)

lemmas ex_defs = ex_env_def ex_cluster_def ex_client_def ex_session_def ex_app_def ex_newJob_def
  ex_release_def ex_artifact_def ex_req_attach_def ex_req_json_def ex_schedule_def
  ex_cluster_schedule_fails_def ex_cluster_attach_fails_def ex_cluster_dial_fails_def
  ex_cluster_empty_def ex_client_refusing_def ex_env_no_release_def ex_env_no_artifact_def
  ex_env_bad_uri_def ex_env_waiting_def

section \<open>The duplex proxy: an invariant of every interleaving\<close>

lemma proxy_inv_init: "proxy_inv (proxy_init a b)"
  by (simp add: proxy_inv_def proxy_init_def left_copy_def)

lemma proxy_inv_step: "proxy_inv p \<Longrightarrow> proxy_inv (proxy_step x p)"
proof (cases x)
  case (Step l)
  assume "proxy_inv p"
  then show ?thesis using Step
    by (cases l; cases "pc_to_conn p"; cases "pc_to_attach p")
       (auto simp: proxy_inv_def left_copy_def is_proxy_event_def split: list.splits)
next
  case (CopyFails l)
  assume "proxy_inv p"
  then show ?thesis using CopyFails
    by (cases l) (auto simp: proxy_inv_def left_copy_def)
next
  case Handler
  assume "proxy_inv p"
  then show ?thesis using Handler
    by (auto simp: proxy_inv_def)
qed

lemma proxy_inv_fold: "proxy_inv p \<Longrightarrow> proxy_inv (fold proxy_step sch p)"
  by (induction sch arbitrary: p) (simp_all add: proxy_inv_step)

lemma proxy_inv_run: "proxy_inv (proxy_run sch (proxy_init a b))"
  by (simp add: proxy_run_def proxy_inv_fold proxy_inv_init)

lemma joined_both_finished:
  assumes "proxy_inv p" "received p = 2"
  shows "pc_to_conn p = Finished \<and> pc_to_attach p = Finished"
  using assms by (auto simp: proxy_inv_def split: if_splits)

lemma joined_both_half_closed:
  assumes "proxy_inv p" "received p = 2"
  shows "ConnCloseWrite \<in> set (ptrace p) \<and> AttachConnCloseWrite \<in> set (ptrace p)"
proof -
  have f: "pc_to_conn p = Finished \<and> pc_to_attach p = Finished"
    using assms by (rule joined_both_finished)
  then have "count_list (ptrace p) ConnCloseWrite = 1 \<and> count_list (ptrace p) AttachConnCloseWrite = 1"
    using assms(1) by (simp add: proxy_inv_def left_copy_def)
  then show ?thesis by (simp add: count_one_mem)
qed

lemma proxy_no_full_close:
  assumes "proxy_inv p"
  shows "ConnClose \<notin> set (ptrace p) \<and> AttachConnClose \<notin> set (ptrace p)"
proof -
  have "\<forall>e \<in> set (ptrace p). is_proxy_event e"
    using assms by (simp add: proxy_inv_def list_all_iff)
  then show ?thesis by (auto simp: is_proxy_event_def)
qed

lemma duplex_events: "e \<in> set (fst (duplex sch a b)) \<Longrightarrow> is_proxy_event e"
  using proxy_inv_run [of sch a b] by (simp add: duplex_def Let_def proxy_inv_def list_all_iff)

lemma duplex_status: "snd (duplex sch a b) = Returned \<or> snd (duplex sch a b) = Blocked"
  by (simp add: duplex_def Let_def)

lemma duplex_no_AddJobs [simp]: "CallAddJobs h j \<notin> set (fst (duplex sch a b))"
  using duplex_events [of "CallAddJobs h j" sch a b] by (auto simp: is_proxy_event_def)

lemma duplex_no_close [simp]:
  "ConnClose \<notin> set (fst (duplex sch a b))" "AttachConnClose \<notin> set (fst (duplex sch a b))"
  using proxy_no_full_close [OF proxy_inv_run, of sch a b] by (simp_all add: duplex_def Let_def)

lemma duplex_joined:
  assumes "snd (duplex sch a b) \<noteq> Blocked"
  shows "ConnCloseWrite \<in> set (fst (duplex sch a b))
       \<and> AttachConnCloseWrite \<in> set (fst (duplex sch a b))"
proof -
  let ?p = "proxy_run sch (proxy_init a b)"
  have inv: "proxy_inv ?p" by (rule proxy_inv_run)
  have r: "received ?p = 2" using assms by (simp add: duplex_def Let_def split: if_splits)
  show ?thesis
    using joined_both_half_closed [OF inv r] by (simp add: duplex_def Let_def)
qed

section \<open>runJob: the paths through the handler\<close>

lemma submit_head:
  "\<exists>rest. fst (runJob_submit newJob env cl hid job sess) = CallAddJobs hid job # rest
     \<and> (\<forall>x y. CallAddJobs x y \<notin> set rest)"
  by (simp add: runJob_submit_def split: option.splits)

lemma submit_AddJobs_mem:
  "CallAddJobs hid j \<in> set (fst (runJob_submit newJob env cl h jb se)) \<Longrightarrow> hid = h \<and> j = jb"
  using submit_head [of newJob env cl h jb se] by auto

lemma proxy_is_submit: "is_proxy_event e \<Longrightarrow> is_submit_event e"
  by (cases e) (simp_all add: is_proxy_event_def is_submit_event_def)

lemma submit_events: "list_all is_submit_event (fst (runJob_submit newJob env cl hid job sess))"
  using duplex_events proxy_is_submit
  by (auto simp: runJob_submit_def is_submit_event_def list_all_iff split: option.splits)

lemma dial_closes_submit:
  "list_all is_submit_event xs \<Longrightarrow> dial_closes (xs @ ys) = dial_closes ys"
  by (induction xs) (auto simp: dial_closes_def is_ClientClose_def is_submit_event_def split: event.splits)

lemma session_closes_submit:
  "list_all is_submit_event xs \<Longrightarrow> session_closes (xs @ ys) = session_closes ys"
  by (induction xs) (auto simp: session_closes_def is_submit_event_def split: event.splits)

lemma opened_dials_submit:
  "list_all is_submit_event xs \<Longrightarrow> opened_dials cl (xs @ ys) = opened_dials cl ys"
  by (induction xs) (auto simp: is_submit_event_def split: event.splits)

lemma opened_sessions_submit:
  "list_all is_submit_event xs \<Longrightarrow> opened_sessions cl cur (xs @ ys) = opened_sessions cl cur ys"
  by (induction xs) (auto simp: is_submit_event_def split: event.splits)

lemma submit_closes [simp]:
  "dial_closes (fst (runJob_submit newJob env cl hid job sess) @ ys) = dial_closes ys"
  "session_closes (fst (runJob_submit newJob env cl hid job sess) @ ys) = session_closes ys"
  "opened_dials cl' (fst (runJob_submit newJob env cl hid job sess) @ ys) = opened_dials cl' ys"
  "opened_sessions cl' cur (fst (runJob_submit newJob env cl hid job sess) @ ys) = opened_sessions cl' cur ys"
  by (simp_all add: submit_events dial_closes_submit session_closes_submit opened_dials_submit
        opened_sessions_submit)

lemma submit_closes0 [simp]:
  "dial_closes (fst (runJob_submit newJob env cl hid job sess)) = 0"
  "session_closes (fst (runJob_submit newJob env cl hid job sess)) = 0"
  "opened_dials cl' (fst (runJob_submit newJob env cl hid job sess)) = 0"
  "opened_sessions cl' cur (fst (runJob_submit newJob env cl hid job sess)) = 0"
  using submit_closes [where ys = "[]" and newJob = newJob and env = env and cl = cl and hid = hid
      and job = job and sess = sess]
  by (simp_all add: dial_closes_def session_closes_def)

lemma closes_Cons [simp]:
  "dial_closes (e # es) = (if is_ClientClose e then 1 else 0) + dial_closes es"
  "session_closes (e # es) = (if e = AttachConnClose then 1 else 0) + session_closes es"
  "dial_closes [] = 0" "session_closes [] = 0"
  by (simp_all add: dial_closes_def session_closes_def)

lemma runJob_interactive_path:
  assumes "releases_Get env (new_ReleaseID newJob) = Inr release"
    and "artifacts_Get env (ArtifactID release) = Inr artifact"
    and "utils_DockerImage env (URI artifact) = Inr img"
    and "strings_Contains (Accept req) ''application/vnd.flynn.attach''"
    and "ListHosts cl = Inr hosts" and "pick_host hosts \<noteq> []"
    and "DialHost cl (pick_host hosts) = Inr client"
    and "Attach client (runJob_attachReq (build_job app newJob env release img True) newJob) True = Inr s"
  shows "runJob app newJob env cl req =
     emit [ReleasesGet (new_ReleaseID newJob), ArtifactsGet (ArtifactID release), CallListHosts,
           CallDialHost (pick_host hosts),
           ClientAttach (peer client) (runJob_attachReq (build_job app newJob env release img True) newJob) True]
       (deferred [AttachConnClose, ClientClose (peer client)]
          (runJob_submit newJob env cl (pick_host hosts) (build_job app newJob env release img True) (Some s)))"
  using assms by (simp add: runJob_def Let_def emit_def deferred_def)

lemma schedule_failure_path:
  assumes "releases_Get env (new_ReleaseID newJob) = Inr release"
    and "artifacts_Get env (ArtifactID release) = Inr artifact"
    and "utils_DockerImage env (URI artifact) = Inr img"
    and "strings_Contains (Accept req) ''application/vnd.flynn.attach''"
    and "ListHosts cl = Inr hosts" and "pick_host hosts \<noteq> []"
    and "DialHost cl (pick_host hosts) = Inr client"
    and "Attach client (runJob_attachReq (build_job app newJob env release img True) newJob) True = Inr s"
    and "AddJobs cl (pick_host hosts) (build_job app newJob env release img True) = Some e"
  shows "runJob app newJob env cl req =
        ([ReleasesGet (new_ReleaseID newJob), ArtifactsGet (ArtifactID release), CallListHosts,
          CallDialHost (pick_host hosts),
          ClientAttach (peer client) (runJob_attachReq (build_job app newJob env release img True) newJob) True,
          CallAddJobs (pick_host hosts) (build_job app newJob env release img True),
          RError (ErrorString (''schedule failed: '' @ e)),
          AttachConnClose,
          ClientClose (peer client)], Returned)"
  using assms by (simp add: runJob_def Let_def emit_def deferred_def runJob_submit_def)

lemma attach_before_submit:
  assumes att: "strings_Contains (Accept req) ''application/vnd.flynn.attach''"
    and mem: "CallAddJobs hid j \<in> set (fst (runJob app newJob env cl req))"
  shows "\<exists>client s. DialHost cl hid = Inr client
            \<and> Attach client (runJob_attachReq j newJob) True = Inr s
            \<and> ClientAttach (peer client) (runJob_attachReq j newJob) True
                  \<in> set (takeWhile (\<lambda>e. e \<noteq> CallAddJobs hid j) (fst (runJob app newJob env cl req)))"
  using att mem
  by (auto simp: runJob_def Let_def split: sum.splits if_splits dest: submit_AddJobs_mem)

lemma every_exit_releases:
  "snd (runJob app newJob env cl req) \<noteq> Blocked \<Longrightarrow>
     dial_closes (fst (runJob app newJob env cl req)) = opened_dials cl (fst (runJob app newJob env cl req))
     \<and> session_closes (fst (runJob app newJob env cl req))
         = opened_sessions cl None (fst (runJob app newJob env cl req))"
  by (auto simp: runJob_def Let_def is_ClientClose_def split: sum.splits)

lemma ex_run_interactive:
  "runJob ex_app ex_newJob ex_env ex_cluster ex_req_attach =
     ([ReleasesGet ''rel'', ArtifactsGet ''art'', CallListHosts, CallDialHost ''h1'',
       ClientAttach ''h1'' (runJob_attachReq (ex_job True) ex_newJob) True,
       CallAddJobs ''h1'' (ex_job True), CallAttachWait,
       HeaderSet ''Content-Type'' ''application/vnd.flynn.attach'',
       HeaderSet ''Content-Length'' ''0'', WriteHeader 101, Hijack,
       ConnWrite ''hello'', AttachConnWrite ''ls'', AttachConnCloseWrite, ConnCloseWrite,
       ConnClose, AttachConnClose, ClientClose ''h1''], Returned)"
  by (simp add: runJob_def runJob_submit_def duplex_def proxy_run_def proxy_init_def
        emit_def deferred_def pick_host_def ex_job_def Let_def ex_defs)

lemma ex_run_schedule_fails:
  "runJob ex_app ex_newJob ex_env ex_cluster_schedule_fails ex_req_attach =
     ([ReleasesGet ''rel'', ArtifactsGet ''art'', CallListHosts, CallDialHost ''h1'',
       ClientAttach ''h1'' (runJob_attachReq (ex_job True) ex_newJob) True,
       CallAddJobs ''h1'' (ex_job True),
       RError (ErrorString ''schedule failed: boom''), AttachConnClose, ClientClose ''h1''], Returned)"
  by (simp add: runJob_def runJob_submit_def emit_def deferred_def pick_host_def ex_job_def
        Let_def ex_defs)

section \<open>runJob: attach before submission\<close>

text \<open>
  C2. In an interactive dispatch (the request accepts the attach media type), whenever
  \<open>AddJobs\<close> is called for a host and a job, the dial of that host and the attach for that
  job have succeeded, and the attach call comes before the first \<open>AddJobs\<close> call in the
  run. When the dial or the attach fails, the handler reports the failure and returns: its
  run has no \<open>AddJobs\<close> call.
\<close>

theorem attach_precedes_AddJobs:
  "strings_Contains (Accept req) ''application/vnd.flynn.attach'' \<longrightarrow>
     (\<forall>hid j.
        CallAddJobs hid j \<in> set (fst (runJob app newJob env cl req)) \<longrightarrow>
        (\<exists>client s. DialHost cl hid = Inr client
            \<and> Attach client (runJob_attachReq j newJob) True = Inr s
            \<and> ClientAttach (peer client) (runJob_attachReq j newJob) True
                  \<in> set (takeWhile (\<lambda>e. e \<noteq> CallAddJobs hid j) (fst (runJob app newJob env cl req)))))
     \<and> (releases_Get env (new_ReleaseID newJob) = Inr release
        \<and> artifacts_Get env (ArtifactID release) = Inr artifact
        \<and> utils_DockerImage env (URI artifact) = Inr img
        \<and> ListHosts cl = Inr hosts \<and> pick_host hosts \<noteq> []
        \<and> DialHost cl (pick_host hosts) = Inl e
        \<longrightarrow> runJob app newJob env cl req =
             ([ReleasesGet (new_ReleaseID newJob), ArtifactsGet (ArtifactID release), CallListHosts,
               CallDialHost (pick_host hosts),
               RError (ErrorString (''lorne connect failed: '' @ e))], Returned))
     \<and> (releases_Get env (new_ReleaseID newJob) = Inr release
        \<and> artifacts_Get env (ArtifactID release) = Inr artifact
        \<and> utils_DockerImage env (URI artifact) = Inr img
        \<and> ListHosts cl = Inr hosts \<and> pick_host hosts \<noteq> []
        \<and> DialHost cl (pick_host hosts) = Inr dialed
        \<and> Attach dialed (runJob_attachReq (build_job app newJob env release img True) newJob) True = Inl e
        \<longrightarrow> runJob app newJob env cl req =
             ([ReleasesGet (new_ReleaseID newJob), ArtifactsGet (ArtifactID release), CallListHosts,
               CallDialHost (pick_host hosts),
               ClientAttach (peer dialed)
                 (runJob_attachReq (build_job app newJob env release img True) newJob) True,
               RError (ErrorString (''attach failed: '' @ e)),
               ClientClose (peer dialed)], Returned))"
proof (intro impI conjI allI)
  fix hid j
  assume "strings_Contains (Accept req) ''application/vnd.flynn.attach''"
    and "CallAddJobs hid j \<in> set (fst (runJob app newJob env cl req))"
  then show "\<exists>client s. DialHost cl hid = Inr client
            \<and> Attach client (runJob_attachReq j newJob) True = Inr s
            \<and> ClientAttach (peer client) (runJob_attachReq j newJob) True
                  \<in> set (takeWhile (\<lambda>e. e \<noteq> CallAddJobs hid j) (fst (runJob app newJob env cl req)))"
    by (rule attach_before_submit)
next
  assume "strings_Contains (Accept req) ''application/vnd.flynn.attach''"
    and "releases_Get env (new_ReleaseID newJob) = Inr release
        \<and> artifacts_Get env (ArtifactID release) = Inr artifact
        \<and> utils_DockerImage env (URI artifact) = Inr img
        \<and> ListHosts cl = Inr hosts \<and> pick_host hosts \<noteq> []
        \<and> DialHost cl (pick_host hosts) = Inl e"
  then show "runJob app newJob env cl req =
             ([ReleasesGet (new_ReleaseID newJob), ArtifactsGet (ArtifactID release), CallListHosts,
               CallDialHost (pick_host hosts),
               RError (ErrorString (''lorne connect failed: '' @ e))], Returned)"
    by (simp add: runJob_def Let_def emit_def)
next
  assume "strings_Contains (Accept req) ''application/vnd.flynn.attach''"
    and "releases_Get env (new_ReleaseID newJob) = Inr release
        \<and> artifacts_Get env (ArtifactID release) = Inr artifact
        \<and> utils_DockerImage env (URI artifact) = Inr img
        \<and> ListHosts cl = Inr hosts \<and> pick_host hosts \<noteq> []
        \<and> DialHost cl (pick_host hosts) = Inr dialed
        \<and> Attach dialed (runJob_attachReq (build_job app newJob env release img True) newJob) True = Inl e"
  then show "runJob app newJob env cl req =
             ([ReleasesGet (new_ReleaseID newJob), ArtifactsGet (ArtifactID release), CallListHosts,
               CallDialHost (pick_host hosts),
               ClientAttach (peer dialed)
                 (runJob_attachReq (build_job app newJob env release img True) newJob) True,
               RError (ErrorString (''attach failed: '' @ e)),
               ClientClose (peer dialed)], Returned)"
    by (simp add: runJob_def Let_def emit_def deferred_def)
qed

theorem attach_precedes_AddJobs_witness:
  "strings_Contains (Accept ex_req_attach) ''application/vnd.flynn.attach''
   \<and> CallAddJobs ''h1'' (ex_job True) \<in> set (fst (runJob ex_app ex_newJob ex_env ex_cluster ex_req_attach))
   \<and> ClientAttach ''h1'' (runJob_attachReq (ex_job True) ex_newJob) True
        \<in> set (takeWhile (\<lambda>e. e \<noteq> CallAddJobs ''h1'' (ex_job True))
                 (fst (runJob ex_app ex_newJob ex_env ex_cluster ex_req_attach)))
   \<and> runJob ex_app ex_newJob ex_env ex_cluster_dial_fails ex_req_attach =
        ([ReleasesGet ''rel'', ArtifactsGet ''art'', CallListHosts, CallDialHost ''h1'',
          RError (ErrorString ''lorne connect failed: unreachable'')], Returned)
   \<and> runJob ex_app ex_newJob ex_env ex_cluster_attach_fails ex_req_attach =
        ([ReleasesGet ''rel'', ArtifactsGet ''art'', CallListHosts, CallDialHost ''h1'',
          ClientAttach ''h1'' (runJob_attachReq (ex_job True) ex_newJob) True,
          RError (ErrorString ''attach failed: refused''), ClientClose ''h1''], Returned)"
proof -
  have a: "strings_Contains (Accept ex_req_attach) ''application/vnd.flynn.attach''"
    by (simp add: ex_req_attach_def)
  have m: "CallAddJobs ''h1'' (ex_job True) \<in> set (fst (runJob ex_app ex_newJob ex_env ex_cluster ex_req_attach))"
    by (simp add: ex_run_interactive)
  from attach_precedes_AddJobs [of ex_req_attach ex_app ex_newJob ex_env ex_cluster] a m
  obtain client where
    c: "DialHost ex_cluster ''h1'' = Inr client"
       "ClientAttach (peer client) (runJob_attachReq (ex_job True) ex_newJob) True
          \<in> set (takeWhile (\<lambda>e. e \<noteq> CallAddJobs ''h1'' (ex_job True))
                   (fst (runJob ex_app ex_newJob ex_env ex_cluster ex_req_attach)))"
    by blast
  from c(1) have "peer client = ''h1''"
    by (auto simp: ex_cluster_def ex_client_def)
  with c(2) have t: "ClientAttach ''h1'' (runJob_attachReq (ex_job True) ex_newJob) True
        \<in> set (takeWhile (\<lambda>e. e \<noteq> CallAddJobs ''h1'' (ex_job True))
                 (fst (runJob ex_app ex_newJob ex_env ex_cluster ex_req_attach)))"
    by simp
  have hd: "releases_Get ex_env (new_ReleaseID ex_newJob) = Inr ex_release
        \<and> artifacts_Get ex_env (ArtifactID ex_release) = Inr ex_artifact
        \<and> utils_DockerImage ex_env (URI ex_artifact) = Inr ''img''
        \<and> ListHosts ex_cluster_dial_fails = Inr [(''h1'', \<lparr>host_ID = ''h1'', Jobs = []\<rparr>)]
        \<and> pick_host [(''h1'', \<lparr>host_ID = ''h1'', Jobs = []\<rparr>)] = ''h1''
        \<and> DialHost ex_cluster_dial_fails ''h1'' = Inl ''unreachable''"
    by (simp add: ex_defs pick_host_def)
  have d: "runJob ex_app ex_newJob ex_env ex_cluster_dial_fails ex_req_attach =
        ([ReleasesGet ''rel'', ArtifactsGet ''art'', CallListHosts, CallDialHost ''h1'',
          RError (ErrorString ''lorne connect failed: unreachable'')], Returned)"
    using attach_precedes_AddJobs [of ex_req_attach ex_app ex_newJob ex_env ex_cluster_dial_fails
        ex_release ex_artifact "''img''" "[(''h1'', \<lparr>host_ID = ''h1'', Jobs = []\<rparr>)]" "''unreachable''"]
      a hd
    by (simp add: ex_newJob_def ex_release_def)
  have hf: "releases_Get ex_env (new_ReleaseID ex_newJob) = Inr ex_release
        \<and> artifacts_Get ex_env (ArtifactID ex_release) = Inr ex_artifact
        \<and> utils_DockerImage ex_env (URI ex_artifact) = Inr ''img''
        \<and> ListHosts ex_cluster_attach_fails = Inr [(''h1'', \<lparr>host_ID = ''h1'', Jobs = []\<rparr>)]
        \<and> pick_host [(''h1'', \<lparr>host_ID = ''h1'', Jobs = []\<rparr>)] = ''h1''
        \<and> DialHost ex_cluster_attach_fails ''h1'' = Inr ex_client_refusing
        \<and> Attach ex_client_refusing (runJob_attachReq (ex_job True) ex_newJob) True = Inl ''refused''
        \<and> peer ex_client_refusing = ''h1''"
    by (simp add: ex_defs pick_host_def)
  have f: "runJob ex_app ex_newJob ex_env ex_cluster_attach_fails ex_req_attach =
        ([ReleasesGet ''rel'', ArtifactsGet ''art'', CallListHosts, CallDialHost ''h1'',
          ClientAttach ''h1'' (runJob_attachReq (ex_job True) ex_newJob) True,
          RError (ErrorString ''attach failed: refused''), ClientClose ''h1''], Returned)"
    using attach_precedes_AddJobs [of ex_req_attach ex_app ex_newJob ex_env ex_cluster_attach_fails
        ex_release ex_artifact "''img''" "[(''h1'', \<lparr>host_ID = ''h1'', Jobs = []\<rparr>)]"
        "''refused''" ex_client_refusing]
      a hf
    by (simp add: ex_newJob_def ex_release_def ex_job_def)
  from a m t d f show ?thesis by simp
qed

section \<open>runJob: a failed submission after the attach\<close>

text \<open>
  C5, as stated, at a dispatch whose \<open>AddJobs\<close> fails with \<open>boom\<close> after the attach
  session was opened: the error goes to the response helper first, and the attach channel
  and the dial are closed after that. Up to the report of the error nothing has been closed.
\<close>

theorem schedule_failure_reported_before_closes:
  "fst (runJob ex_app ex_newJob ex_env ex_cluster_schedule_fails ex_req_attach) =
     [ReleasesGet ''rel'', ArtifactsGet ''art'', CallListHosts, CallDialHost ''h1'',
      ClientAttach ''h1'' (runJob_attachReq (ex_job True) ex_newJob) True,
      CallAddJobs ''h1'' (ex_job True),
      RError (ErrorString ''schedule failed: boom''), AttachConnClose, ClientClose ''h1'']
   \<and> session_closes (takeWhile (\<lambda>e. e \<noteq> RError (ErrorString ''schedule failed: boom''))
         (fst (runJob ex_app ex_newJob ex_env ex_cluster_schedule_fails ex_req_attach))) = 0
   \<and> dial_closes (takeWhile (\<lambda>e. e \<noteq> RError (ErrorString ''schedule failed: boom''))
         (fst (runJob ex_app ex_newJob ex_env ex_cluster_schedule_fails ex_req_attach))) = 0"
  by (simp add: ex_run_schedule_fails is_ClientClose_def)

text \<open>
  C5, amended. If, during an interactive dispatch, \<open>AddJobs\<close> fails after the attach session
  was opened, the handler reports an error annotated \<open>schedule failed\<close> to the response
  helper and then, before it returns, closes the attach channel and the per-operation host
  dial, each exactly once. On every exit of the handler, by return or by panic, the run has
  closed as many dials as it opened and as many attach sessions as it opened.
\<close>

theorem schedule_failure_releases:
  "(releases_Get env (new_ReleaseID newJob) = Inr release
    \<and> artifacts_Get env (ArtifactID release) = Inr artifact
    \<and> utils_DockerImage env (URI artifact) = Inr img
    \<and> strings_Contains (Accept req) ''application/vnd.flynn.attach''
    \<and> ListHosts cl = Inr hosts \<and> pick_host hosts \<noteq> []
    \<and> DialHost cl (pick_host hosts) = Inr client
    \<and> Attach client (runJob_attachReq (build_job app newJob env release img True) newJob) True = Inr s
    \<and> AddJobs cl (pick_host hosts) (build_job app newJob env release img True) = Some e
    \<longrightarrow> runJob app newJob env cl req =
         ([ReleasesGet (new_ReleaseID newJob), ArtifactsGet (ArtifactID release), CallListHosts,
           CallDialHost (pick_host hosts),
           ClientAttach (peer client) (runJob_attachReq (build_job app newJob env release img True) newJob) True,
           CallAddJobs (pick_host hosts) (build_job app newJob env release img True),
           RError (ErrorString (''schedule failed: '' @ e)),
           AttachConnClose,
           ClientClose (peer client)], Returned)
       \<and> session_closes (fst (runJob app newJob env cl req)) = 1
       \<and> dial_closes (fst (runJob app newJob env cl req)) = 1)
   \<and> (snd (runJob app newJob env cl req) \<noteq> Blocked \<longrightarrow>
        dial_closes (fst (runJob app newJob env cl req))
          = opened_dials cl (fst (runJob app newJob env cl req))
        \<and> session_closes (fst (runJob app newJob env cl req))
          = opened_sessions cl None (fst (runJob app newJob env cl req)))"
proof (intro conjI impI)
  assume a: "releases_Get env (new_ReleaseID newJob) = Inr release
    \<and> artifacts_Get env (ArtifactID release) = Inr artifact
    \<and> utils_DockerImage env (URI artifact) = Inr img
    \<and> strings_Contains (Accept req) ''application/vnd.flynn.attach''
    \<and> ListHosts cl = Inr hosts \<and> pick_host hosts \<noteq> []
    \<and> DialHost cl (pick_host hosts) = Inr client
    \<and> Attach client (runJob_attachReq (build_job app newJob env release img True) newJob) True = Inr s
    \<and> AddJobs cl (pick_host hosts) (build_job app newJob env release img True) = Some e"
  then show r: "runJob app newJob env cl req =
         ([ReleasesGet (new_ReleaseID newJob), ArtifactsGet (ArtifactID release), CallListHosts,
           CallDialHost (pick_host hosts),
           ClientAttach (peer client) (runJob_attachReq (build_job app newJob env release img True) newJob) True,
           CallAddJobs (pick_host hosts) (build_job app newJob env release img True),
           RError (ErrorString (''schedule failed: '' @ e)),
           AttachConnClose,
           ClientClose (peer client)], Returned)"
    using schedule_failure_path [of env newJob release artifact img req cl hosts client app s e]
    by blast
  show "session_closes (fst (runJob app newJob env cl req)) = 1"
    by (simp add: r)
  show "dial_closes (fst (runJob app newJob env cl req)) = 1"
    by (simp add: r is_ClientClose_def)
next
  assume b: "snd (runJob app newJob env cl req) \<noteq> Blocked"
  from every_exit_releases [OF b]
  show "dial_closes (fst (runJob app newJob env cl req))
          = opened_dials cl (fst (runJob app newJob env cl req))"
    by simp
  from every_exit_releases [OF b]
  show "session_closes (fst (runJob app newJob env cl req))
          = opened_sessions cl None (fst (runJob app newJob env cl req))"
    by simp
qed

theorem schedule_failure_releases_witness:
  "AddJobs ex_cluster_schedule_fails ''h1'' (ex_job True) = Some ''boom''
   \<and> runJob ex_app ex_newJob ex_env ex_cluster_schedule_fails ex_req_attach =
        ([ReleasesGet ''rel'', ArtifactsGet ''art'', CallListHosts, CallDialHost ''h1'',
          ClientAttach ''h1'' (runJob_attachReq (ex_job True) ex_newJob) True,
          CallAddJobs ''h1'' (ex_job True),
          RError (ErrorString ''schedule failed: boom''), AttachConnClose, ClientClose ''h1''], Returned)
   \<and> session_closes (fst (runJob ex_app ex_newJob ex_env ex_cluster_schedule_fails ex_req_attach)) = 1
   \<and> dial_closes (fst (runJob ex_app ex_newJob ex_env ex_cluster_schedule_fails ex_req_attach)) = 1
   \<and> snd (runJob ex_app ex_newJob ex_env ex_cluster ex_req_attach) = Returned
   \<and> dial_closes (fst (runJob ex_app ex_newJob ex_env ex_cluster ex_req_attach))
        = opened_dials ex_cluster (fst (runJob ex_app ex_newJob ex_env ex_cluster ex_req_attach))
   \<and> session_closes (fst (runJob ex_app ex_newJob ex_env ex_cluster ex_req_attach))
        = opened_sessions ex_cluster None (fst (runJob ex_app ex_newJob ex_env ex_cluster ex_req_attach))"
proof -
  have h: "releases_Get ex_env (new_ReleaseID ex_newJob) = Inr ex_release
    \<and> artifacts_Get ex_env (ArtifactID ex_release) = Inr ex_artifact
    \<and> utils_DockerImage ex_env (URI ex_artifact) = Inr ''img''
    \<and> strings_Contains (Accept ex_req_attach) ''application/vnd.flynn.attach''
    \<and> ListHosts ex_cluster_schedule_fails = Inr [(''h1'', \<lparr>host_ID = ''h1'', Jobs = []\<rparr>)]
    \<and> pick_host [(''h1'', \<lparr>host_ID = ''h1'', Jobs = []\<rparr>)] = ''h1''
    \<and> DialHost ex_cluster_schedule_fails ''h1'' = Inr ex_client
    \<and> Attach ex_client (runJob_attachReq (ex_job True) ex_newJob) True = Inr ex_session
    \<and> AddJobs ex_cluster_schedule_fails ''h1'' (ex_job True) = Some ''boom''
    \<and> peer ex_client = ''h1''"
    by (simp add: ex_defs pick_host_def)
  have n: "new_ReleaseID ex_newJob = ''rel''" "ArtifactID ex_release = ''art''"
    by (simp_all add: ex_defs)
  have p: "runJob ex_app ex_newJob ex_env ex_cluster_schedule_fails ex_req_attach =
        ([ReleasesGet ''rel'', ArtifactsGet ''art'', CallListHosts, CallDialHost ''h1'',
          ClientAttach ''h1'' (runJob_attachReq (ex_job True) ex_newJob) True,
          CallAddJobs ''h1'' (ex_job True),
          RError (ErrorString ''schedule failed: boom''), AttachConnClose, ClientClose ''h1''], Returned)
   \<and> session_closes (fst (runJob ex_app ex_newJob ex_env ex_cluster_schedule_fails ex_req_attach)) = 1
   \<and> dial_closes (fst (runJob ex_app ex_newJob ex_env ex_cluster_schedule_fails ex_req_attach)) = 1"
    using schedule_failure_releases [of ex_env ex_newJob ex_release ex_artifact "''img''" ex_req_attach
        ex_cluster_schedule_fails "[(''h1'', \<lparr>host_ID = ''h1'', Jobs = []\<rparr>)]" ex_client ex_app
        ex_session "''boom''"] h n
    by (simp add: ex_job_def is_ClientClose_def)
  have b: "snd (runJob ex_app ex_newJob ex_env ex_cluster ex_req_attach) \<noteq> Blocked"
    by (simp add: ex_run_interactive)
  have q: "dial_closes (fst (runJob ex_app ex_newJob ex_env ex_cluster ex_req_attach))
        = opened_dials ex_cluster (fst (runJob ex_app ex_newJob ex_env ex_cluster ex_req_attach))
   \<and> session_closes (fst (runJob ex_app ex_newJob ex_env ex_cluster ex_req_attach))
        = opened_sessions ex_cluster None (fst (runJob ex_app ex_newJob ex_env ex_cluster ex_req_attach))"
    using schedule_failure_releases [of ex_env ex_newJob _ _ _ ex_req_attach ex_cluster _ _ ex_app] b
    by blast
  have r: "snd (runJob ex_app ex_newJob ex_env ex_cluster ex_req_attach) = Returned"
    by (simp add: ex_run_interactive)
  from h p q r show ?thesis by blast
qed

section \<open>runJob: no hosts\<close>

text \<open>
  C6, as stated, at a request whose release the repository does not have, made while the
  snapshot is empty: the handler answers with the repository's \<open>ErrNotFound\<close> and never
  reads the snapshot; the error is not \<open>no hosts found\<close>.
\<close>

theorem no_hosts_but_release_not_found:
  "ListHosts ex_cluster_empty = Inr []
   \<and> releases_Get ex_env_no_release (new_ReleaseID ex_newJob) = Inl ErrNotFound
   \<and> runJob ex_app ex_newJob ex_env_no_release ex_cluster_empty ex_req_json =
        ([ReleasesGet ''rel'', RError ErrNotFound], Returned)
   \<and> RError (ErrorString ''no hosts found'')
        \<notin> set (fst (runJob ex_app ex_newJob ex_env_no_release ex_cluster_empty ex_req_json))"
  by (simp add: runJob_def emit_def ex_defs)

text \<open>
  C6, amended. For every run-job request made while the snapshot that \<open>ListHosts\<close> returns
  is empty, the run dials no host, attaches to nothing and submits nothing, and it ends by
  reporting an error. For every such request whose release, artifact and image reference
  resolved, that error is \<open>no hosts found\<close>, the handler's form of no host being
  available; a request that did not resolve has been answered with the resolution error
  before the snapshot is read.
\<close>

theorem no_hosts_available:
  "ListHosts cl = Inr [] \<longrightarrow>
     (\<forall>e \<in> set (fst (runJob app newJob env cl req)). \<not> attaches_or_submits e)
     \<and> snd (runJob app newJob env cl req) = Returned
     \<and> (\<exists>err. last (fst (runJob app newJob env cl req)) = RError err)
     \<and> (releases_Get env (new_ReleaseID newJob) = Inr release
        \<and> artifacts_Get env (ArtifactID release) = Inr artifact
        \<and> utils_DockerImage env (URI artifact) = Inr img
        \<longrightarrow> runJob app newJob env cl req =
             ([ReleasesGet (new_ReleaseID newJob), ArtifactsGet (ArtifactID release), CallListHosts,
               RError (ErrorString ''no hosts found'')], Returned))"
  by (auto simp: runJob_def Let_def emit_def pick_host_def attaches_or_submits_def split: sum.splits)

theorem no_hosts_available_witness:
  "ListHosts ex_cluster_empty = Inr []
   \<and> runJob ex_app ex_newJob ex_env ex_cluster_empty ex_req_attach =
        ([ReleasesGet ''rel'', ArtifactsGet ''art'', CallListHosts,
          RError (ErrorString ''no hosts found'')], Returned)
   \<and> list_all (\<lambda>e. \<not> attaches_or_submits e)
        (fst (runJob ex_app ex_newJob ex_env ex_cluster_empty ex_req_attach))"
proof -
  have h: "ListHosts ex_cluster_empty = Inr []"
    by (simp add: ex_defs)
  have r: "releases_Get ex_env (new_ReleaseID ex_newJob) = Inr ex_release
        \<and> artifacts_Get ex_env (ArtifactID ex_release) = Inr ex_artifact
        \<and> utils_DockerImage ex_env (URI ex_artifact) = Inr ''img''"
    by (simp add: ex_defs)
  from no_hosts_available [of ex_cluster_empty ex_app ex_newJob ex_env ex_req_attach
      ex_release ex_artifact "''img''"] h r
  have c: "(\<forall>e \<in> set (fst (runJob ex_app ex_newJob ex_env ex_cluster_empty ex_req_attach)).
              \<not> attaches_or_submits e)
     \<and> runJob ex_app ex_newJob ex_env ex_cluster_empty ex_req_attach =
             ([ReleasesGet (new_ReleaseID ex_newJob), ArtifactsGet (ArtifactID ex_release), CallListHosts,
               RError (ErrorString ''no hosts found'')], Returned)"
    by blast
  from c have "\<forall>e \<in> set (fst (runJob ex_app ex_newJob ex_env ex_cluster_empty ex_req_attach)).
              \<not> attaches_or_submits e"
    by (rule conjunct1)
  then have l: "list_all (\<lambda>e. \<not> attaches_or_submits e)
        (fst (runJob ex_app ex_newJob ex_env ex_cluster_empty ex_req_attach))"
    by (simp only: list_all_iff)
  have n: "new_ReleaseID ex_newJob = ''rel''" "ArtifactID ex_release = ''art''"
    by (simp_all add: ex_defs)
  from c have "runJob ex_app ex_newJob ex_env ex_cluster_empty ex_req_attach =
        ([ReleasesGet ''rel'', ArtifactsGet ''art'', CallListHosts,
          RError (ErrorString ''no hosts found'')], Returned)"
    by (simp add: n)
  with h l show ?thesis by blast
qed

section \<open>runJob: failures of the resolution\<close>

text \<open>
  C7, as stated, at a request whose release the repository does not have: the handler
  passes the repository's \<open>ErrNotFound\<close> on as it is; no \<open>ValidationError\<close> is reported.
\<close>

theorem release_not_found_is_passed_on:
  "releases_Get ex_env_no_release (new_ReleaseID ex_newJob) = Inl ErrNotFound
   \<and> runJob ex_app ex_newJob ex_env_no_release ex_cluster ex_req_json =
        ([ReleasesGet ''rel'', RError ErrNotFound], Returned)
   \<and> \<not> reports_ValidationError (fst (runJob ex_app ex_newJob ex_env_no_release ex_cluster ex_req_json))"
  by (simp add: runJob_def emit_def reports_ValidationError_def ex_defs)

text \<open>
  C7, amended. For every run-job request, a failure to resolve the release, a failure to
  resolve the release's artifact, or a failure to parse the artifact's URI into an image
  reference ends the request before the host directory is read and before any host is
  contacted. The error of a failed release or artifact lookup is reported as the
  repository returned it; the failed parse is reported as the
  \<open>ValidationError\<close> with field \<open>artifact.uri\<close> and message \<open>is invalid\<close>.
\<close>

theorem resolution_failures_abort:
  "(releases_Get env (new_ReleaseID newJob) = Inl err \<longrightarrow>
      runJob app newJob env cl req = ([ReleasesGet (new_ReleaseID newJob), RError err], Returned))
   \<and> (releases_Get env (new_ReleaseID newJob) = Inr release
      \<and> artifacts_Get env (ArtifactID release) = Inl err \<longrightarrow>
      runJob app newJob env cl req =
        ([ReleasesGet (new_ReleaseID newJob), ArtifactsGet (ArtifactID release), RError err], Returned))
   \<and> (releases_Get env (new_ReleaseID newJob) = Inr release
      \<and> artifacts_Get env (ArtifactID release) = Inr artifact
      \<and> utils_DockerImage env (URI artifact) = Inl msg \<longrightarrow>
      runJob app newJob env cl req =
        ([ReleasesGet (new_ReleaseID newJob), ArtifactsGet (ArtifactID release),
          LogPrintf ''error parsing artifact uri'' [msg],
          RError (ValidationError ''artifact.uri'' ''is invalid'')], Returned))"
  by (simp add: runJob_def emit_def)

theorem resolution_failures_abort_witness:
  "runJob ex_app ex_newJob ex_env_no_release ex_cluster ex_req_attach =
     ([ReleasesGet ''rel'', RError ErrNotFound], Returned)
   \<and> runJob ex_app ex_newJob ex_env_no_artifact ex_cluster ex_req_attach =
     ([ReleasesGet ''rel'', ArtifactsGet ''art'', RError ErrNotFound], Returned)
   \<and> runJob ex_app ex_newJob ex_env_bad_uri ex_cluster ex_req_attach =
     ([ReleasesGet ''rel'', ArtifactsGet ''art'', LogPrintf ''error parsing artifact uri'' [''bad uri''],
       RError (ValidationError ''artifact.uri'' ''is invalid'')], Returned)"
proof -
  have a: "releases_Get ex_env_no_release (new_ReleaseID ex_newJob) = Inl ErrNotFound"
    by (simp add: ex_defs)
  have b: "releases_Get ex_env_no_artifact (new_ReleaseID ex_newJob) = Inr ex_release
      \<and> artifacts_Get ex_env_no_artifact (ArtifactID ex_release) = Inl ErrNotFound"
    by (simp add: ex_defs)
  have c: "releases_Get ex_env_bad_uri (new_ReleaseID ex_newJob) = Inr ex_release
      \<and> artifacts_Get ex_env_bad_uri (ArtifactID ex_release) = Inr ex_artifact
      \<and> utils_DockerImage ex_env_bad_uri (URI ex_artifact) = Inl ''bad uri''"
    by (simp add: ex_defs)
  have n: "new_ReleaseID ex_newJob = ''rel''" "ArtifactID ex_release = ''art''"
    by (simp_all add: ex_defs)
  from a b c show ?thesis
    using resolution_failures_abort [of ex_env_no_release ex_newJob ErrNotFound ex_app ex_cluster ex_req_attach]
      resolution_failures_abort [of ex_env_no_artifact ex_newJob ErrNotFound ex_app ex_cluster ex_req_attach
        ex_release]
      resolution_failures_abort [of ex_env_bad_uri ex_newJob _ ex_app ex_cluster ex_req_attach
        ex_release ex_artifact "''bad uri''"]
    by (simp add: n)
qed

section \<open>runJob: the duplex session\<close>

lemma submit_ConnClose:
  assumes "ConnClose \<in> set (fst (runJob_submit newJob env cl hid job sess))"
  shows "\<exists>s::attach_session. sess = Some s
     \<and> snd (duplex (schedule env) (raw_reads s) (conn_reads env)) = Returned
     \<and> runJob_submit newJob env cl hid job sess =
         ([CallAddJobs hid job, CallAttachWait,
           HeaderSet ''Content-Type'' ''application/vnd.flynn.attach'',
           HeaderSet ''Content-Length'' ''0'', WriteHeader 101, Hijack]
          @ fst (duplex (schedule env) (raw_reads s) (conn_reads env)) @ [ConnClose], Returned)"
  using assms duplex_status
  by (auto simp: runJob_submit_def emit_def deferred_def split: option.splits if_splits)

lemma submit_Blocked:
  assumes "snd (runJob_submit newJob env cl hid job sess) = Blocked"
  shows "ConnClose \<notin> set (fst (runJob_submit newJob env cl hid job sess))"
  using assms submit_ConnClose [of newJob env cl hid job sess] by auto

lemma runJob_ConnClose_path:
  assumes "ConnClose \<in> set (fst (runJob app newJob env cl req))"
  shows "\<exists>release artifact img hosts client s.
       releases_Get env (new_ReleaseID newJob) = Inr release
     \<and> artifacts_Get env (ArtifactID release) = Inr artifact
     \<and> utils_DockerImage env (URI artifact) = Inr img
     \<and> strings_Contains (Accept req) ''application/vnd.flynn.attach''
     \<and> ListHosts cl = Inr hosts \<and> pick_host hosts \<noteq> []
     \<and> DialHost cl (pick_host hosts) = Inr client
     \<and> Attach client (runJob_attachReq (build_job app newJob env release img True) newJob) True = Inr s
     \<and> ConnClose \<in> set (fst (runJob_submit newJob env cl (pick_host hosts)
                                (build_job app newJob env release img True) (Some s)))"
  using assms
  by (auto simp: runJob_def Let_def runJob_submit_def split: sum.splits if_splits option.splits)

lemma runJob_ConnClose:
  assumes "ConnClose \<in> set (fst (runJob app newJob env cl req))"
  shows "\<exists>pre (client::cluster_Host) (s::attach_session).
       snd (duplex (schedule env) (raw_reads s) (conn_reads env)) = Returned
     \<and> ConnClose \<notin> set pre \<and> AttachConnClose \<notin> set pre
     \<and> fst (runJob app newJob env cl req) =
         (pre @ fst (duplex (schedule env) (raw_reads s) (conn_reads env)))
          @ ConnClose # [AttachConnClose, ClientClose (peer client)]"
proof -
  from runJob_ConnClose_path [OF assms] obtain release artifact img hosts client s where
    p: "releases_Get env (new_ReleaseID newJob) = Inr release"
       "artifacts_Get env (ArtifactID release) = Inr artifact"
       "utils_DockerImage env (URI artifact) = Inr img"
       "strings_Contains (Accept req) ''application/vnd.flynn.attach''"
       "ListHosts cl = Inr hosts" "pick_host hosts \<noteq> []"
       "DialHost cl (pick_host hosts) = Inr client"
       "Attach client (runJob_attachReq (build_job app newJob env release img True) newJob) True = Inr s"
    and m: "ConnClose \<in> set (fst (runJob_submit newJob env cl (pick_host hosts)
                                (build_job app newJob env release img True) (Some s)))"
    by blast
  from submit_ConnClose [OF m] have
    st: "snd (duplex (schedule env) (raw_reads s) (conn_reads env)) = Returned"
    and sub: "runJob_submit newJob env cl (pick_host hosts) (build_job app newJob env release img True) (Some s) =
         ([CallAddJobs (pick_host hosts) (build_job app newJob env release img True), CallAttachWait,
           HeaderSet ''Content-Type'' ''application/vnd.flynn.attach'',
           HeaderSet ''Content-Length'' ''0'', WriteHeader 101, Hijack]
          @ fst (duplex (schedule env) (raw_reads s) (conn_reads env)) @ [ConnClose], Returned)"
    by simp_all
  let ?pre = "[ReleasesGet (new_ReleaseID newJob), ArtifactsGet (ArtifactID release), CallListHosts,
           CallDialHost (pick_host hosts),
           ClientAttach (peer client) (runJob_attachReq (build_job app newJob env release img True) newJob) True,
           CallAddJobs (pick_host hosts) (build_job app newJob env release img True), CallAttachWait,
           HeaderSet ''Content-Type'' ''application/vnd.flynn.attach'',
           HeaderSet ''Content-Length'' ''0'', WriteHeader 101, Hijack]"
  have tr: "fst (runJob app newJob env cl req) =
         (?pre @ fst (duplex (schedule env) (raw_reads s) (conn_reads env)))
          @ ConnClose # [AttachConnClose, ClientClose (peer client)]"
    by (simp add: runJob_interactive_path [OF p] sub)
  have n: "ConnClose \<notin> set ?pre \<and> AttachConnClose \<notin> set ?pre" by simp
  have "snd (duplex (schedule env) (raw_reads s) (conn_reads env)) = Returned
     \<and> ConnClose \<notin> set ?pre \<and> AttachConnClose \<notin> set ?pre
     \<and> fst (runJob app newJob env cl req) =
         (?pre @ fst (duplex (schedule env) (raw_reads s) (conn_reads env)))
          @ ConnClose # [AttachConnClose, ClientClose (peer client)]"
    using st tr n by (intro conjI) simp_all
  then show ?thesis by - (rule exI, rule exI, rule exI, assumption)
qed

lemma runJob_joined:
  assumes m: "ConnClose \<in> set (fst (runJob app newJob env cl req))"
  shows "ConnCloseWrite \<in> set (takeWhile (\<lambda>e. e \<noteq> ConnClose) (fst (runJob app newJob env cl req)))
      \<and> AttachConnCloseWrite \<in> set (takeWhile (\<lambda>e. e \<noteq> ConnClose) (fst (runJob app newJob env cl req)))
      \<and> AttachConnClose \<notin> set (takeWhile (\<lambda>e. e \<noteq> ConnClose) (fst (runJob app newJob env cl req)))
      \<and> (\<exists>c. dropWhile (\<lambda>e. e \<noteq> ConnClose) (fst (runJob app newJob env cl req))
              = [ConnClose, AttachConnClose, ClientClose c])"
proof -
  from runJob_ConnClose [OF m] obtain pre and s :: attach_session and client :: cluster_Host where
    st: "snd (duplex (schedule env) (raw_reads s) (conn_reads env)) = Returned"
    and pre: "ConnClose \<notin> set pre" "AttachConnClose \<notin> set pre"
    and tr: "fst (runJob app newJob env cl req) =
       (pre @ fst (duplex (schedule env) (raw_reads s) (conn_reads env)))
        @ ConnClose # [AttachConnClose, ClientClose (peer client)]"
    by blast
  let ?d = "fst (duplex (schedule env) (raw_reads s) (conn_reads env))"
  have j: "ConnCloseWrite \<in> set ?d \<and> AttachConnCloseWrite \<in> set ?d"
    using duplex_joined [of "schedule env" "raw_reads s" "conn_reads env"] st by simp
  have n: "ConnClose \<notin> set (pre @ ?d)" using pre by simp
  have t: "takeWhile (\<lambda>e. e \<noteq> ConnClose) (fst (runJob app newJob env cl req)) = pre @ ?d"
    unfolding tr using n by (rule takeWhile_upto)
  have dr: "dropWhile (\<lambda>e. e \<noteq> ConnClose) (fst (runJob app newJob env cl req))
      = [ConnClose, AttachConnClose, ClientClose (peer client)]"
    unfolding tr using n by (rule dropWhile_from)
  show ?thesis
    unfolding t dr using j pre by simp
qed

lemma runJob_blocked:
  assumes "snd (runJob app newJob env cl req) = Blocked"
  shows "ConnClose \<notin> set (fst (runJob app newJob env cl req))
     \<and> session_closes (fst (runJob app newJob env cl req)) = 0
     \<and> dial_closes (fst (runJob app newJob env cl req)) = 0"
  using assms
  by (auto simp: runJob_def Let_def is_ClientClose_def split: sum.splits if_splits
        dest: submit_Blocked)

text \<open>
  C4. A copy loop whose source is at its end, or whose copy fails, goes on to half-close its
  destination: its next step is \<open>CloseWrite\<close> on the connection it writes to. In every
  interleaving the loops half-close at most once each and never close a connection. The
  handler has received both completion signals only when both loops have finished; while
  it waits, nothing has been closed; and when it closes the hijacked connection, both
  half-closes have taken place before, the attach channel has not been closed before, and
  the attach channel and the dial are closed right after.
\<close>

theorem proxy_half_close_and_join:
  "(pc_to_conn p = Copying \<and> from_attach p = [] \<longrightarrow>
      pc_to_conn (proxy_step (Step ToConn) p) = Closing)
   \<and> (pc_to_attach p = Copying \<and> from_conn p = [] \<longrightarrow>
      pc_to_attach (proxy_step (Step ToAttach) p) = Closing)
   \<and> (pc_to_conn p = Closing \<longrightarrow> ptrace (proxy_step (Step ToConn) p) = ptrace p @ [ConnCloseWrite])
   \<and> (pc_to_attach p = Closing \<longrightarrow>
      ptrace (proxy_step (Step ToAttach) p) = ptrace p @ [AttachConnCloseWrite])
   \<and> ConnClose \<notin> set (ptrace (proxy_run sch (proxy_init a b)))
   \<and> AttachConnClose \<notin> set (ptrace (proxy_run sch (proxy_init a b)))
   \<and> count_list (ptrace (proxy_run sch (proxy_init a b))) ConnCloseWrite
       = (if left_copy (pc_to_conn (proxy_run sch (proxy_init a b))) then 1 else 0)
   \<and> count_list (ptrace (proxy_run sch (proxy_init a b))) AttachConnCloseWrite
       = (if left_copy (pc_to_attach (proxy_run sch (proxy_init a b))) then 1 else 0)
   \<and> (received (proxy_run sch (proxy_init a b)) = 2 \<longrightarrow>
        pc_to_conn (proxy_run sch (proxy_init a b)) = Finished
        \<and> pc_to_attach (proxy_run sch (proxy_init a b)) = Finished)
   \<and> (snd (runJob app newJob env cl req) = Blocked \<longrightarrow>
        ConnClose \<notin> set (fst (runJob app newJob env cl req))
        \<and> session_closes (fst (runJob app newJob env cl req)) = 0
        \<and> dial_closes (fst (runJob app newJob env cl req)) = 0)
   \<and> (ConnClose \<in> set (fst (runJob app newJob env cl req)) \<longrightarrow>
        ConnCloseWrite \<in> set (takeWhile (\<lambda>e. e \<noteq> ConnClose) (fst (runJob app newJob env cl req)))
      \<and> AttachConnCloseWrite \<in> set (takeWhile (\<lambda>e. e \<noteq> ConnClose) (fst (runJob app newJob env cl req)))
      \<and> AttachConnClose \<notin> set (takeWhile (\<lambda>e. e \<noteq> ConnClose) (fst (runJob app newJob env cl req)))
      \<and> (\<exists>c. dropWhile (\<lambda>e. e \<noteq> ConnClose) (fst (runJob app newJob env cl req))
              = [ConnClose, AttachConnClose, ClientClose c]))"
proof -
  have inv: "proxy_inv (proxy_run sch (proxy_init a b))" by (rule proxy_inv_run)
  have s1: "pc_to_conn p = Copying \<and> from_attach p = [] \<longrightarrow>
      pc_to_conn (proxy_step (Step ToConn) p) = Closing"
    by simp
  have s2: "pc_to_attach p = Copying \<and> from_conn p = [] \<longrightarrow>
      pc_to_attach (proxy_step (Step ToAttach) p) = Closing"
    by simp
  have s3: "pc_to_conn p = Closing \<longrightarrow> ptrace (proxy_step (Step ToConn) p) = ptrace p @ [ConnCloseWrite]"
    by simp
  have s4: "pc_to_attach p = Closing \<longrightarrow>
      ptrace (proxy_step (Step ToAttach) p) = ptrace p @ [AttachConnCloseWrite]"
    by simp
  have n: "ConnClose \<notin> set (ptrace (proxy_run sch (proxy_init a b)))
     \<and> AttachConnClose \<notin> set (ptrace (proxy_run sch (proxy_init a b)))"
    using proxy_no_full_close [OF inv] .
  have c: "count_list (ptrace (proxy_run sch (proxy_init a b))) ConnCloseWrite
       = (if left_copy (pc_to_conn (proxy_run sch (proxy_init a b))) then 1 else 0)
     \<and> count_list (ptrace (proxy_run sch (proxy_init a b))) AttachConnCloseWrite
       = (if left_copy (pc_to_attach (proxy_run sch (proxy_init a b))) then 1 else 0)"
    using inv by (simp add: proxy_inv_def)
  have j: "received (proxy_run sch (proxy_init a b)) = 2 \<longrightarrow>
        pc_to_conn (proxy_run sch (proxy_init a b)) = Finished
        \<and> pc_to_attach (proxy_run sch (proxy_init a b)) = Finished"
    using joined_both_finished [OF inv] by blast
  have w: "snd (runJob app newJob env cl req) = Blocked \<longrightarrow>
        ConnClose \<notin> set (fst (runJob app newJob env cl req))
        \<and> session_closes (fst (runJob app newJob env cl req)) = 0
        \<and> dial_closes (fst (runJob app newJob env cl req)) = 0"
    using runJob_blocked by blast
  have e: "ConnClose \<in> set (fst (runJob app newJob env cl req)) \<longrightarrow>
        ConnCloseWrite \<in> set (takeWhile (\<lambda>e. e \<noteq> ConnClose) (fst (runJob app newJob env cl req)))
      \<and> AttachConnCloseWrite \<in> set (takeWhile (\<lambda>e. e \<noteq> ConnClose) (fst (runJob app newJob env cl req)))
      \<and> AttachConnClose \<notin> set (takeWhile (\<lambda>e. e \<noteq> ConnClose) (fst (runJob app newJob env cl req)))
      \<and> (\<exists>c. dropWhile (\<lambda>e. e \<noteq> ConnClose) (fst (runJob app newJob env cl req))
              = [ConnClose, AttachConnClose, ClientClose c])"
    using runJob_joined by blast
  from s1 s2 s3 s4 n c j w e show ?thesis by blast
qed

lemma ex_run_waiting:
  "runJob ex_app ex_newJob ex_env_waiting ex_cluster ex_req_attach =
     ([ReleasesGet ''rel'', ArtifactsGet ''art'', CallListHosts, CallDialHost ''h1'',
       ClientAttach ''h1'' (runJob_attachReq (build_job ex_app ex_newJob ex_env_waiting ex_release ''img'' True) ex_newJob) True,
       CallAddJobs ''h1'' (build_job ex_app ex_newJob ex_env_waiting ex_release ''img'' True), CallAttachWait,
       HeaderSet ''Content-Type'' ''application/vnd.flynn.attach'',
       HeaderSet ''Content-Length'' ''0'', WriteHeader 101, Hijack,
       ConnWrite ''hello''], Blocked)"
  by (simp add: runJob_def runJob_submit_def duplex_def proxy_run_def proxy_init_def
        emit_def deferred_def pick_host_def Let_def ex_defs)

theorem proxy_half_close_and_join_witness:
  "pc_to_conn (proxy_step (Step ToConn) (proxy_init [] [])) = Closing
   \<and> pc_to_attach (proxy_step (Step ToAttach) (proxy_init [] [])) = Closing
   \<and> ptrace (proxy_step (Step ToConn) (proxy_step (Step ToConn) (proxy_init [] []))) = [ConnCloseWrite]
   \<and> ptrace (proxy_step (Step ToAttach) (proxy_step (Step ToAttach) (proxy_init [] [])))
       = [AttachConnCloseWrite]
   \<and> received (proxy_run ex_schedule (proxy_init [''hello''] [''ls''])) = 2
   \<and> pc_to_conn (proxy_run ex_schedule (proxy_init [''hello''] [''ls''])) = Finished
   \<and> pc_to_attach (proxy_run ex_schedule (proxy_init [''hello''] [''ls''])) = Finished
   \<and> snd (runJob ex_app ex_newJob ex_env_waiting ex_cluster ex_req_attach) = Blocked
   \<and> ConnClose \<notin> set (fst (runJob ex_app ex_newJob ex_env_waiting ex_cluster ex_req_attach))
   \<and> session_closes (fst (runJob ex_app ex_newJob ex_env_waiting ex_cluster ex_req_attach)) = 0
   \<and> dial_closes (fst (runJob ex_app ex_newJob ex_env_waiting ex_cluster ex_req_attach)) = 0
   \<and> ConnClose \<in> set (fst (runJob ex_app ex_newJob ex_env ex_cluster ex_req_attach))
   \<and> ConnCloseWrite \<in> set (takeWhile (\<lambda>e. e \<noteq> ConnClose)
        (fst (runJob ex_app ex_newJob ex_env ex_cluster ex_req_attach)))
   \<and> AttachConnCloseWrite \<in> set (takeWhile (\<lambda>e. e \<noteq> ConnClose)
        (fst (runJob ex_app ex_newJob ex_env ex_cluster ex_req_attach)))
   \<and> AttachConnClose \<notin> set (takeWhile (\<lambda>e. e \<noteq> ConnClose)
        (fst (runJob ex_app ex_newJob ex_env ex_cluster ex_req_attach)))
   \<and> dropWhile (\<lambda>e. e \<noteq> ConnClose) (fst (runJob ex_app ex_newJob ex_env ex_cluster ex_req_attach))
       = [ConnClose, AttachConnClose, ClientClose ''h1'']"
proof -
  let ?p0 = "proxy_init [] []"
  have h0: "pc_to_conn ?p0 = Copying \<and> from_attach ?p0 = []"
    "pc_to_attach ?p0 = Copying \<and> from_conn ?p0 = []"
    by (simp_all add: proxy_init_def)
  have h1: "pc_to_conn (proxy_step (Step ToConn) ?p0) = Closing"
    "ptrace (proxy_step (Step ToConn) ?p0) = []"
    by (simp_all add: proxy_init_def)
  have h2: "pc_to_attach (proxy_step (Step ToAttach) ?p0) = Closing"
    "ptrace (proxy_step (Step ToAttach) ?p0) = []"
    by (simp_all add: proxy_init_def)
  have r: "received (proxy_run ex_schedule (proxy_init [''hello''] [''ls''])) = 2"
    by (simp add: proxy_run_def proxy_init_def ex_schedule_def)
  have b: "snd (runJob ex_app ex_newJob ex_env_waiting ex_cluster ex_req_attach) = Blocked"
    by (simp add: ex_run_waiting)
  have m: "ConnClose \<in> set (fst (runJob ex_app ex_newJob ex_env ex_cluster ex_req_attach))"
    by (simp add: ex_run_interactive)
  note t0 = proxy_half_close_and_join [of ?p0 ex_schedule "[''hello'']" "[''ls'']"
      ex_app ex_newJob ex_env ex_cluster ex_req_attach]
  note t1 = proxy_half_close_and_join [of "proxy_step (Step ToConn) ?p0" ex_schedule "[''hello'']" "[''ls'']"
      ex_app ex_newJob ex_env_waiting ex_cluster ex_req_attach]
  note t2 = proxy_half_close_and_join [of "proxy_step (Step ToAttach) ?p0" ex_schedule "[''hello'']" "[''ls'']"
      ex_app ex_newJob ex_env_waiting ex_cluster ex_req_attach]
  have a1: "pc_to_conn (proxy_step (Step ToConn) ?p0) = Closing
      \<and> pc_to_attach (proxy_step (Step ToAttach) ?p0) = Closing"
    using t0 h0 by blast
  have a2: "ptrace (proxy_step (Step ToConn) (proxy_step (Step ToConn) ?p0)) = [ConnCloseWrite]"
    using t1 h1 by simp
  have a3: "ptrace (proxy_step (Step ToAttach) (proxy_step (Step ToAttach) ?p0)) = [AttachConnCloseWrite]"
    using t2 h2 by simp
  have a4: "pc_to_conn (proxy_run ex_schedule (proxy_init [''hello''] [''ls''])) = Finished
      \<and> pc_to_attach (proxy_run ex_schedule (proxy_init [''hello''] [''ls''])) = Finished"
    using t0 r by blast
  have a5: "ConnClose \<notin> set (fst (runJob ex_app ex_newJob ex_env_waiting ex_cluster ex_req_attach))
      \<and> session_closes (fst (runJob ex_app ex_newJob ex_env_waiting ex_cluster ex_req_attach)) = 0
      \<and> dial_closes (fst (runJob ex_app ex_newJob ex_env_waiting ex_cluster ex_req_attach)) = 0"
    using t1 b by blast
  have a6: "ConnCloseWrite \<in> set (takeWhile (\<lambda>e. e \<noteq> ConnClose)
        (fst (runJob ex_app ex_newJob ex_env ex_cluster ex_req_attach)))
      \<and> AttachConnCloseWrite \<in> set (takeWhile (\<lambda>e. e \<noteq> ConnClose)
        (fst (runJob ex_app ex_newJob ex_env ex_cluster ex_req_attach)))
      \<and> AttachConnClose \<notin> set (takeWhile (\<lambda>e. e \<noteq> ConnClose)
        (fst (runJob ex_app ex_newJob ex_env ex_cluster ex_req_attach)))"
    using t0 m by blast
  have a7: "dropWhile (\<lambda>e. e \<noteq> ConnClose) (fst (runJob ex_app ex_newJob ex_env ex_cluster ex_req_attach))
       = [ConnClose, AttachConnClose, ClientClose ''h1'']"
    by (simp add: ex_run_interactive)
  from a1 a2 a3 r a4 b a5 m a6 a7 show ?thesis by blast
qed

section \<open>jobList\<close>

lemma jobList_jobs_spec:
  "list_all (has_config app) js \<Longrightarrow>
   jobList_jobs app h js acc = Some (acc @ map (spec_summary h) (filter (spec_matches app) js))"
proof (induction js arbitrary: acc)
  case Nil
  then show ?case by simp
next
  case (Cons j js)
  then show ?case
    by (auto simp: has_config_def spec_matches_def spec_summary_def Let_def)
qed

lemma jobList_hosts_spec:
  "configured app hosts \<Longrightarrow> jobList_hosts app hosts acc = Some (acc @ spec_listing app hosts)"
proof (induction hosts arbitrary: acc)
  case Nil
  then show ?case by (simp add: spec_listing_def)
next
  case (Cons kh hosts)
  then show ?case
    by (simp add: configured_def spec_listing_def jobList_jobs_spec)
qed

text \<open>
  C9, as stated, at a snapshot with one job of the application that has no type and no
  config: the listing reads the command of that job through the nil config and panics; no
  summaries are returned.
\<close>

theorem jobList_no_config_panics:
  "ListHosts ex_cluster_no_config = Inr ex_hosts_no_config
   \<and> attr ex_job_no_config ''flynn-controller.app'' = app_ID ex_app
   \<and> attr ex_job_no_config ''flynn-controller.type'' = []
   \<and> Config ex_job_no_config = None
   \<and> jobList ex_app ex_cluster_no_config = ([CallListHosts, Panic ''nil pointer dereference''], Panicked)"
  by (simp add: jobList_def emit_def attr_def ex_cluster_no_config_def ex_hosts_no_config_def
        ex_job_no_config_def ex_job_adhoc_def ex_cluster_def ex_app_def)

text \<open>
  C9, amended. For every snapshot that \<open>ListHosts\<close> returns in which each job of the
  application that has an empty type has a config, the listing answers 200 with exactly
  the summaries of the jobs whose \<open>app\<close> annotation is the application's ID, in the order
  of the iteration: the ID is the host's ID, \<open>-\<close> and the job's ID, the type and the
  release ID are the annotations, and the command is the job's configured one when the
  type is empty and is left empty otherwise. Jobs of other applications are not listed.
\<close>

theorem jobList_lists_app_jobs:
  "ListHosts cc = Inr hosts \<and> configured app hosts \<longrightarrow>
   jobList app cc = ([CallListHosts, RJSON 200 (JobsBody (spec_listing app hosts))], Returned)"
  by (simp add: jobList_def emit_def jobList_hosts_spec)

theorem jobList_lists_app_jobs_witness:
  "ListHosts ex_cluster_listing = Inr ex_hosts \<and> configured ex_app ex_hosts
   \<and> spec_listing ex_app ex_hosts =
       [\<lparr>ID = ''h1-j1'', Type = ''web'', ReleaseID = ''rel'', job_Cmd = []\<rparr>,
        \<lparr>ID = ''h2-j3'', Type = [], ReleaseID = ''rel'', job_Cmd = [''ls'']\<rparr>]
   \<and> jobList ex_app ex_cluster_listing =
       ([CallListHosts,
         RJSON 200 (JobsBody
           [\<lparr>ID = ''h1-j1'', Type = ''web'', ReleaseID = ''rel'', job_Cmd = []\<rparr>,
            \<lparr>ID = ''h2-j3'', Type = [], ReleaseID = ''rel'', job_Cmd = [''ls'']\<rparr>])],
        Returned)"
proof -
  have l: "ListHosts ex_cluster_listing = Inr ex_hosts"
    by (simp add: ex_cluster_listing_def ex_cluster_def)
  have c: "configured ex_app ex_hosts"
    by (simp add: configured_def has_config_def spec_matches_def attr_def ex_hosts_def
          ex_job_web_def ex_job_other_def ex_job_adhoc_def ex_app_def)
  have s: "spec_listing ex_app ex_hosts =
       [\<lparr>ID = ''h1-j1'', Type = ''web'', ReleaseID = ''rel'', job_Cmd = []\<rparr>,
        \<lparr>ID = ''h2-j3'', Type = [], ReleaseID = ''rel'', job_Cmd = [''ls'']\<rparr>]"
    by (simp add: spec_listing_def spec_summary_def spec_matches_def attr_def ex_hosts_def
          ex_job_web_def ex_job_other_def ex_job_adhoc_def ex_config_def ex_app_def)
  have lc: "ListHosts ex_cluster_listing = Inr ex_hosts \<and> configured ex_app ex_hosts"
    using l c by (rule conjI)
  note t = jobList_lists_app_jobs [of ex_cluster_listing ex_hosts ex_app, THEN mp, OF lc]
  have j: "jobList ex_app ex_cluster_listing =
       ([CallListHosts,
         RJSON 200 (JobsBody
           [\<lparr>ID = ''h1-j1'', Type = ''web'', ReleaseID = ''rel'', job_Cmd = []\<rparr>,
            \<lparr>ID = ''h2-j3'', Type = [], ReleaseID = ''rel'', job_Cmd = [''ls'']\<rparr>])],
        Returned)"
    using t by (simp only: s)
  from l c s j show ?thesis by (intro conjI)
qed

section \<open>Dispatched jobs in the listing\<close>

lemma runJob_AddJobs_job:
  assumes "CallAddJobs hid j \<in> set (fst (runJob app newJob env cl req))"
  shows "\<exists>release img. releases_Get env (new_ReleaseID newJob) = Inr release
     \<and> j = build_job app newJob env release img
             (strings_Contains (Accept req) ''application/vnd.flynn.attach'')"
  using assms
  by (auto simp: runJob_def Let_def split: sum.splits if_splits dest: submit_AddJobs_mem)

lemma build_job_dom:
  "dom (Attributes (build_job app newJob env release img attach))
     = {''flynn-controller.app'', ''flynn-controller.release''}"
  by (auto simp: build_job_def)

lemma build_job_attr:
  "attr (build_job app newJob env release img attach) ''flynn-controller.type'' = []"
  "attr (build_job app newJob env release img attach) ''flynn-controller.app'' = app_ID app"
  "attr (build_job app newJob env release img attach) ''flynn-controller.release'' = release_ID release"
  by (simp_all add: build_job_def attr_def)

lemma jobList_jobs_mono:
  "jobList_jobs app h js acc = Some out \<Longrightarrow> set acc \<subseteq> set out"
proof (induction js arbitrary: acc)
  case Nil
  then show ?case by simp
next
  case (Cons j js)
  from Cons.prems obtain acc' where a: "jobList_jobs app h js acc' = Some out" "set acc \<subseteq> set acc'"
    by (fastforce simp: Let_def split: if_splits option.splits)
  from Cons.IH [OF a(1)] a(2) show ?case by blast
qed

lemma jobList_hosts_mono:
  "jobList_hosts app hs acc = Some out \<Longrightarrow> set acc \<subseteq> set out"
proof (induction hs arbitrary: acc)
  case Nil
  then show ?case by simp
next
  case (Cons kh hs)
  then show ?case
    by (auto split: option.splits dest: jobList_jobs_mono)
qed

lemma jobList_jobs_lists:
  assumes "jobList_jobs app h js acc = Some out" "j \<in> set js"
    "attr j ''flynn-controller.app'' = app_ID app"
  shows "spec_summary h j \<in> set out"
  using assms
proof (induction js arbitrary: acc)
  case Nil
  then show ?case by simp
next
  case (Cons x js)
  show ?case
  proof (cases "x = j")
    case True
    from Cons.prems(1) True Cons.prems(3) obtain acc' where
      "jobList_jobs app h js acc' = Some out" "spec_summary h j \<in> set acc'"
      by (auto simp: Let_def spec_summary_def split: if_splits option.splits)
    then show ?thesis using jobList_jobs_mono by blast
  next
    case False
    then have "j \<in> set js" using Cons.prems(2) by simp
    moreover from Cons.prems(1) obtain acc' where "jobList_jobs app h js acc' = Some out"
      by (auto simp: Let_def split: if_splits option.splits)
    ultimately show ?thesis using Cons.IH Cons.prems(3) by blast
  qed
qed

lemma jobList_hosts_lists:
  assumes "jobList_hosts app hs acc = Some out" "kh \<in> set hs" "j \<in> set (Jobs (snd kh))"
    "attr j ''flynn-controller.app'' = app_ID app"
  shows "spec_summary (snd kh) j \<in> set out"
  using assms
proof (induction hs arbitrary: acc)
  case Nil
  then show ?case by simp
next
  case (Cons x hs)
  from Cons.prems(1) obtain mid where
    mid: "jobList_jobs app (snd x) (Jobs (snd x)) acc = Some mid" "jobList_hosts app hs mid = Some out"
    by (auto split: option.splits)
  show ?case
  proof (cases "x = kh")
    case True
    then have "spec_summary (snd kh) j \<in> set mid"
      using jobList_jobs_lists [OF mid(1) _ Cons.prems(4)] Cons.prems(3) by simp
    then show ?thesis using jobList_hosts_mono [OF mid(2)] by blast
  next
    case False
    then have "kh \<in> set hs" using Cons.prems(2) by simp
    then show ?thesis using Cons.IH [OF mid(2) _ Cons.prems(3) Cons.prems(4)] by simp
  qed
qed

text \<open>
  C10. The job record the dispatcher builds has exactly the attributes
  \<open>flynn-controller.app\<close> and \<open>flynn-controller.release\<close>, and every job that
  \<open>runJob\<close> submits is such a record. So whenever a job submitted by \<open>runJob\<close> is among
  the jobs of a host in a snapshot and the listing for the same application answers with
  summaries, one of them is the summary of that job with an empty type, the release's ID,
  and the command of the request.
\<close>

theorem dispatched_jobs_list_with_cmd:
  "dom (Attributes (build_job app newJob env release img attach))
     = {''flynn-controller.app'', ''flynn-controller.release''}
   \<and> (CallAddJobs hid j \<in> set (fst (runJob app newJob env cl req)) \<longrightarrow>
        dom (Attributes j) = {''flynn-controller.app'', ''flynn-controller.release''}
        \<and> (ListHosts cc = Inr hosts \<and> kh \<in> set hosts \<and> j \<in> set (Jobs (snd kh))
            \<and> jobList app cc = ([CallListHosts, RJSON 200 (JobsBody js)], Returned)
           \<longrightarrow> (\<exists>r. releases_Get env (new_ReleaseID newJob) = Inr r
                  \<and> \<lparr>ID = host_ID (snd kh) @ ''-'' @ job_ID j, Type = [],
                       ReleaseID = release_ID r, job_Cmd = new_Cmd newJob\<rparr> \<in> set js)))"
proof (intro conjI impI)
  show "dom (Attributes (build_job app newJob env release img attach))
     = {''flynn-controller.app'', ''flynn-controller.release''}"
    by (rule build_job_dom)
next
  assume m: "CallAddJobs hid j \<in> set (fst (runJob app newJob env cl req))"
  then obtain r i where j: "j = build_job app newJob env r i
             (strings_Contains (Accept req) ''application/vnd.flynn.attach'')"
    using runJob_AddJobs_job by blast
  show "dom (Attributes j) = {''flynn-controller.app'', ''flynn-controller.release''}"
    unfolding j by (rule build_job_dom)
next
  assume m: "CallAddJobs hid j \<in> set (fst (runJob app newJob env cl req))"
    and l: "ListHosts cc = Inr hosts \<and> kh \<in> set hosts \<and> j \<in> set (Jobs (snd kh))
            \<and> jobList app cc = ([CallListHosts, RJSON 200 (JobsBody js)], Returned)"
  from m obtain r i where rel: "releases_Get env (new_ReleaseID newJob) = Inr r"
    and j: "j = build_job app newJob env r i
             (strings_Contains (Accept req) ''application/vnd.flynn.attach'')"
    using runJob_AddJobs_job by blast
  from l have "jobList_hosts app hosts [] = Some js"
    by (auto simp: jobList_def emit_def split: option.splits)
  then have "spec_summary (snd kh) j \<in> set js"
    using jobList_hosts_lists [of app hosts "[]" js kh j] l build_job_attr(2) j by blast
  moreover have "spec_summary (snd kh) j = \<lparr>ID = host_ID (snd kh) @ ''-'' @ job_ID j, Type = [],
                        ReleaseID = release_ID r, job_Cmd = new_Cmd newJob\<rparr>"
    unfolding j by (simp add: spec_summary_def build_job_attr) (simp add: build_job_def)
  ultimately show "\<exists>r. releases_Get env (new_ReleaseID newJob) = Inr r
                  \<and> \<lparr>ID = host_ID (snd kh) @ ''-'' @ job_ID j, Type = [],
                       ReleaseID = release_ID r, job_Cmd = new_Cmd newJob\<rparr> \<in> set js"
    using rel by auto
qed

lemma ex_run_json:
  "runJob ex_app ex_newJob ex_env ex_cluster ex_req_json =
     ([ReleasesGet ''rel'', ArtifactsGet ''art'', CallListHosts,
       CallAddJobs ''h1'' (ex_job False),
       RJSON 200 (JobBody \<lparr>ID = ''h1-j1'', Type = [], ReleaseID = ''rel'', job_Cmd = [''ls'']\<rparr>)],
      Returned)"
  by (simp add: runJob_def runJob_submit_def emit_def pick_host_def ex_job_def build_job_def
        Let_def ex_defs)

lemma ex_list_dispatched:
  "jobList ex_app ex_cluster_dispatched =
     ([CallListHosts,
       RJSON 200 (JobsBody [\<lparr>ID = ''h1-j1'', Type = [], ReleaseID = ''rel'', job_Cmd = [''ls'']\<rparr>])],
      Returned)"
  by (simp add: jobList_def emit_def attr_def ex_cluster_dispatched_def ex_hosts_dispatched_def
        ex_job_def build_job_def Let_def ex_defs)

theorem dispatched_jobs_list_with_cmd_witness:
  "CallAddJobs ''h1'' (ex_job False) \<in> set (fst (runJob ex_app ex_newJob ex_env ex_cluster ex_req_json))
   \<and> dom (Attributes (ex_job False)) = {''flynn-controller.app'', ''flynn-controller.release''}
   \<and> jobList ex_app ex_cluster_dispatched =
       ([CallListHosts,
         RJSON 200 (JobsBody [\<lparr>ID = ''h1-j1'', Type = [], ReleaseID = ''rel'', job_Cmd = [''ls'']\<rparr>])],
        Returned)
   \<and> \<lparr>ID = ''h1'' @ ''-'' @ job_ID (ex_job False), Type = [], ReleaseID = release_ID ex_release,
        job_Cmd = new_Cmd ex_newJob\<rparr>
       \<in> set [\<lparr>ID = ''h1-j1'', Type = [], ReleaseID = ''rel'', job_Cmd = [''ls'']\<rparr>]"
proof -
  let ?kh = "(''h1'', \<lparr>host_ID = ''h1'', Jobs = [ex_job False]\<rparr>)"
  let ?js = "[\<lparr>ID = ''h1-j1'', Type = [], ReleaseID = ''rel'', job_Cmd = [''ls'']\<rparr>]"
  have m: "CallAddJobs ''h1'' (ex_job False) \<in> set (fst (runJob ex_app ex_newJob ex_env ex_cluster ex_req_json))"
    by (simp add: ex_run_json)
  have l1: "ListHosts ex_cluster_dispatched = Inr ex_hosts_dispatched"
    by (simp add: ex_cluster_dispatched_def ex_cluster_def)
  have l2: "?kh \<in> set ex_hosts_dispatched"
    by (simp add: ex_hosts_dispatched_def)
  have l3: "ex_job False \<in> set (Jobs (snd ?kh))"
    by simp
  have l4: "jobList ex_app ex_cluster_dispatched = ([CallListHosts, RJSON 200 (JobsBody ?js)], Returned)"
    by (rule ex_list_dispatched)
  have l: "ListHosts ex_cluster_dispatched = Inr ex_hosts_dispatched \<and> ?kh \<in> set ex_hosts_dispatched
      \<and> ex_job False \<in> set (Jobs (snd ?kh))
      \<and> jobList ex_app ex_cluster_dispatched = ([CallListHosts, RJSON 200 (JobsBody ?js)], Returned)"
    using l1 l2 l3 l4 by (intro conjI)
  note t = dispatched_jobs_list_with_cmd [of ex_app ex_newJob ex_env ex_release "''img''" False
      "''h1''" "ex_job False" ex_cluster ex_req_json ex_cluster_dispatched ex_hosts_dispatched ?kh ?js]
  note t2 = t [THEN conjunct2, THEN mp, OF m]
  have d: "dom (Attributes (ex_job False)) = {''flynn-controller.app'', ''flynn-controller.release''}"
    using t2 by (rule conjunct1)
  note t3 = t2 [THEN conjunct2, THEN mp, OF l]
  from t3 obtain r where r: "releases_Get ex_env (new_ReleaseID ex_newJob) = Inr r"
    "\<lparr>ID = host_ID (snd ?kh) @ ''-'' @ job_ID (ex_job False), Type = [],
       ReleaseID = release_ID r, job_Cmd = new_Cmd ex_newJob\<rparr> \<in> set ?js"
    by (elim exE conjE)
  from r(1) have "r = ex_release" by (simp add: ex_defs)
  with r(2) have s: "\<lparr>ID = ''h1'' @ ''-'' @ job_ID (ex_job False), Type = [], ReleaseID = release_ID ex_release,
        job_Cmd = new_Cmd ex_newJob\<rparr> \<in> set ?js"
    by simp
  from m d l4 s show ?thesis by (intro conjI)
qed

section \<open>The SSE log writer: one frame for each write\<close>

lemma accepting3_cases:
  assumes "list_all (\<lambda>r. r = WriteOK) (take 3 xs)"
  shows "xs = [] \<or> xs = [WriteOK] \<or> xs = [WriteOK, WriteOK]
     \<or> (\<exists>rs. xs = WriteOK # WriteOK # WriteOK # rs)"
proof (cases xs)
  case Nil
  then show ?thesis by simp
next
  case (Cons a as)
  note c1 = Cons
  show ?thesis
  proof (cases as)
    case Nil
    then show ?thesis using assms c1 by (simp add: numeral_3_eq_3)
  next
    case (Cons b bs)
    note c2 = Cons
    show ?thesis
    proof (cases bs)
      case Nil
      then show ?thesis using assms c1 c2 by (simp add: numeral_3_eq_3)
    next
      case (Cons c cs)
      then show ?thesis using assms c1 c2 by (simp add: numeral_3_eq_3)
    qed
  qed
qed

lemma Write_frame:
  assumes "\<not> Mutex w" "accepting 3 (Writer w)"
  shows "fst (Write (Stream s) p w) = Some (length p, None)
     \<and> calls (Writer (snd (Write (Stream s) p w))) = calls (Writer w) @ frame_calls (Encoder w) s p
     \<and> script (Writer (snd (Write (Stream s) p w))) = drop 3 (script (Writer w))
     \<and> Encoder (snd (Write (Stream s) p w)) = Encoder w
     \<and> \<not> Mutex (snd (Write (Stream s) p w))"
proof -
  consider (0) "script (Writer w) = []"
    | (1) "script (Writer w) = [WriteOK]"
    | (2) "script (Writer w) = [WriteOK, WriteOK]"
    | (3) rs where "script (Writer w) = WriteOK # WriteOK # WriteOK # rs"
    using assms(2) accepting3_cases [of "script (Writer w)"]
    by (auto simp: accepting_def)
  then show ?thesis
    using assms(1)
    by cases
      (simp_all add: Write_def Lock_def Unlock_def log_call_def Encode_def io_Write_def
         Stream_def frame_calls_def Let_def)
qed

lemma io_Write_calls: "\<exists>b'. calls (snd (io_Write b w)) = calls w @ [WWrite b']"
  by (auto simp: io_Write_def split: list.splits write_result.splits)

lemma Unlock_calls:
  "calls (Writer (Unlock w)) = calls (Writer w) @ [MutexUnlock]" "\<not> Mutex (Unlock w)"
  by (simp_all add: Unlock_def log_call_def)

lemma Write_locked:
  assumes "\<not> Mutex w"
  shows "\<not> Mutex (snd (Write h p w))
     \<and> (\<exists>ws. calls (Writer (snd (Write h p w)))
            = calls (Writer w) @ MutexLock # map WWrite ws @ [MutexUnlock])"
proof -
  let ?w1 = "Lock w"
  let ?chunk = "\<lparr>chunk_Stream = stream_name h, chunk_Data = p\<rparr>"
  have c0: "calls (Writer ?w1) = calls (Writer w) @ [MutexLock]"
    by (simp add: Lock_def log_call_def)
  obtain r1 wr1 where a1: "io_Write ''data: '' (Writer ?w1) = (r1, wr1)"
    by (cases "io_Write ''data: '' (Writer ?w1)") auto
  obtain b1 where c1: "calls wr1 = calls (Writer w) @ [MutexLock, WWrite b1]"
    using io_Write_calls [of "''data: ''" "Writer ?w1"] a1 c0 by auto
  let ?w2 = "?w1\<lparr>Writer := wr1\<rparr>"
  show ?thesis
  proof (cases "snd r1")
    case (Some e)
    then have "snd (Write h p w) = Unlock ?w2"
      using assms a1 by (simp add: Write_def Let_def)
    then have "\<not> Mutex (snd (Write h p w))
      \<and> calls (Writer (snd (Write h p w))) = calls (Writer w) @ MutexLock # map WWrite [b1] @ [MutexUnlock]"
      using c1 by (simp add: Unlock_calls)
    then show ?thesis by blast
  next
    case None
    note n1 = None
    obtain r2 wr2 where a2: "io_Write (Encoder ?w2 ?chunk @ nl) (Writer ?w2) = (r2, wr2)"
      by (cases "io_Write (Encoder ?w2 ?chunk @ nl) (Writer ?w2)") auto
    obtain b2 where c2: "calls wr2 = calls (Writer w) @ [MutexLock, WWrite b1, WWrite b2]"
      using io_Write_calls [of "Encoder ?w2 ?chunk @ nl" "Writer ?w2"] a2 c1 by auto
    let ?w3 = "?w2\<lparr>Writer := wr2\<rparr>"
    have e2: "Encode ?chunk ?w2 = (snd r2, ?w3)"
      using a2 by (simp add: Encode_def)
    show ?thesis
    proof (cases "snd r2")
      case (Some e)
      then have "snd (Write h p w) = Unlock ?w3"
        using assms a1 n1 e2 by (simp add: Write_def Let_def)
      then have "\<not> Mutex (snd (Write h p w))
        \<and> calls (Writer (snd (Write h p w)))
            = calls (Writer w) @ MutexLock # map WWrite [b1, b2] @ [MutexUnlock]"
        using c2 by (simp add: Unlock_calls)
      then show ?thesis by blast
    next
      case None
      obtain r3 wr3 where a3: "io_Write nl (Writer ?w3) = (r3, wr3)"
        by (cases "io_Write nl (Writer ?w3)") auto
      obtain b3 where c3: "calls wr3 = calls (Writer w) @ [MutexLock, WWrite b1, WWrite b2, WWrite b3]"
        using io_Write_calls [of nl "Writer ?w3"] a3 c2 by auto
      have "snd (Write h p w) = Unlock (?w3\<lparr>Writer := wr3\<rparr>)"
        using assms a1 n1 e2 None a3 by (simp add: Write_def Let_def)
      then have "\<not> Mutex (snd (Write h p w))
        \<and> calls (Writer (snd (Write h p w)))
            = calls (Writer w) @ MutexLock # map WWrite [b1, b2, b3] @ [MutexUnlock]"
        using c3 by (simp add: Unlock_calls)
      then show ?thesis by blast
    qed
  qed
qed

lemma body_append: "body (xs @ ys) = body xs @ body ys"
  by (induction xs rule: body.induct) simp_all

lemma body_frame_calls: "body (frame_calls enc name p) = spec_frame enc name p"
  by (simp add: frame_calls_def spec_frame_def)

lemma body_frames:
  "body (concat (map (\<lambda>f. frame_calls enc (stream_of (fst f)) (snd f)) fs))
     = concat (map (\<lambda>f. spec_frame enc (stream_of (fst f)) (snd f)) fs)"
  by (induction fs) (simp_all add: body_append body_frame_calls)

text \<open>
  C3. A \<open>Write\<close> of the chunk \<open>p\<close> on the handle of the stream \<open>s\<close>, with the mutex free and
  the writer accepting the three writes, returns \<open>len(p)\<close> and adds to the writer exactly:
  the lock, the write of the prefix \<open>data: \<close>, the write of the encoded record with the
  fields \<open>stream = s\<close> and \<open>data = p\<close> and the encoder's newline, the write of the line
  terminator, and the unlock. The bytes added are that one frame, whatever was written
  before. Also when a write fails, everything the call writes lies between its lock and
  its unlock, and the mutex is free again on return.
\<close>

theorem stream_Write_one_frame:
  "(\<not> Mutex w \<and> accepting 3 (Writer w) \<longrightarrow>
      fst (Write (Stream s) p w) = Some (length p, None)
      \<and> calls (Writer (snd (Write (Stream s) p w)))
          = calls (Writer w) @
            [MutexLock, WWrite ''data: '',
             WWrite (Encoder w \<lparr>chunk_Stream = s, chunk_Data = p\<rparr> @ nl), WWrite nl, MutexUnlock]
      \<and> body (calls (Writer (snd (Write (Stream s) p w))))
          = body (calls (Writer w)) @ ''data: '' @ Encoder w \<lparr>chunk_Stream = s, chunk_Data = p\<rparr> @ nl @ nl)
   \<and> (\<not> Mutex w \<longrightarrow>
        \<not> Mutex (snd (Write h p w))
        \<and> (\<exists>ws. calls (Writer (snd (Write h p w)))
               = calls (Writer w) @ MutexLock # map WWrite ws @ [MutexUnlock]))"
proof (intro conjI impI)
  assume a: "\<not> Mutex w \<and> accepting 3 (Writer w)"
  then have f: "fst (Write (Stream s) p w) = Some (length p, None)
     \<and> calls (Writer (snd (Write (Stream s) p w))) = calls (Writer w) @ frame_calls (Encoder w) s p"
    using Write_frame [of w s p] by simp
  from f show "fst (Write (Stream s) p w) = Some (length p, None)" by simp
  from f show "calls (Writer (snd (Write (Stream s) p w)))
          = calls (Writer w) @
            [MutexLock, WWrite ''data: '',
             WWrite (Encoder w \<lparr>chunk_Stream = s, chunk_Data = p\<rparr> @ nl), WWrite nl, MutexUnlock]"
    by (simp add: frame_calls_def)
  from f show "body (calls (Writer (snd (Write (Stream s) p w))))
          = body (calls (Writer w)) @ ''data: '' @ Encoder w \<lparr>chunk_Stream = s, chunk_Data = p\<rparr> @ nl @ nl"
    by (simp add: body_append body_frame_calls spec_frame_def)
next
  assume "\<not> Mutex w"
  then show "\<not> Mutex (snd (Write h p w))"
    using Write_locked by blast
next
  assume "\<not> Mutex w"
  then show "\<exists>ws. calls (Writer (snd (Write h p w)))
               = calls (Writer w) @ MutexLock # map WWrite ws @ [MutexUnlock]"
    using Write_locked by blast
qed

theorem stream_Write_one_frame_witness:
  "\<not> Mutex ex_writer \<and> accepting 3 (Writer ex_writer)
   \<and> fst (Write (Stream ''stdout'') ''hi'' ex_writer) = Some (2, None)
   \<and> calls (Writer (snd (Write (Stream ''stdout'') ''hi'' ex_writer)))
       = [MutexLock, WWrite ''data: '',
          WWrite (ex_encoder \<lparr>chunk_Stream = ''stdout'', chunk_Data = ''hi''\<rparr> @ nl), WWrite nl,
          MutexUnlock]
   \<and> \<not> Mutex (snd (Write (Stream ''stdout'') ''hi'' ex_writer))"
proof -
  have a: "\<not> Mutex ex_writer \<and> accepting 3 (Writer ex_writer)"
    by (simp add: ex_writer_def NewSSELogWriter_def accepting_def)
  have e: "calls (Writer ex_writer) = []" "Encoder ex_writer = ex_encoder"
    by (simp_all add: ex_writer_def NewSSELogWriter_def)
  note t = stream_Write_one_frame [of ex_writer "''stdout''" "''hi''" "Stream ''stdout''"]
  note t1 = t [THEN conjunct1, THEN mp, OF a]
  note t2 = t [THEN conjunct2, THEN mp, OF a [THEN conjunct1]]
  have r: "fst (Write (Stream ''stdout'') ''hi'' ex_writer) = Some (2, None)"
    using t1 [THEN conjunct1] by simp
  have c: "calls (Writer (snd (Write (Stream ''stdout'') ''hi'' ex_writer)))
       = [MutexLock, WWrite ''data: '',
          WWrite (ex_encoder \<lparr>chunk_Stream = ''stdout'', chunk_Data = ''hi''\<rparr> @ nl), WWrite nl,
          MutexUnlock]"
    using t1 [THEN conjunct2, THEN conjunct1] by (simp only: e append_Nil)
  have m: "\<not> Mutex (snd (Write (Stream ''stdout'') ''hi'' ex_writer))"
    using t2 by (rule conjunct1)
  from a r c m show ?thesis by (intro conjI) simp_all
qed

section \<open>jobLog: the event stream and its end\<close>

lemma demultiplex_Copy_frames:
  assumes "\<not> Mutex w" "script (Writer w) = []" "list_all (\<lambda>f. fst f = 1 \<or> fst f = 2) fs"
  shows "fst (demultiplex_Copy (Stream ''stdout'') (Stream ''stderr'') fs w) = Some None
     \<and> calls (Writer (snd (demultiplex_Copy (Stream ''stdout'') (Stream ''stderr'') fs w)))
         = calls (Writer w) @ concat (map (\<lambda>f. frame_calls (Encoder w) (stream_of (fst f)) (snd f)) fs)
     \<and> script (Writer (snd (demultiplex_Copy (Stream ''stdout'') (Stream ''stderr'') fs w))) = []"
  using assms
proof (induction fs arbitrary: w)
  case Nil
  then show ?case by simp
next
  case (Cons f fs)
  let ?h = "Stream (stream_of (fst f))"
  have acc: "accepting 3 (Writer w)" using Cons.prems(2) by (simp add: accepting_def)
  note wf = Write_frame [OF Cons.prems(1) acc, of "stream_of (fst f)" "snd f"]
  obtain w' where w': "Write ?h (snd f) w = (Some (length (snd f), None), w')"
    using wf by (cases "Write ?h (snd f) w") auto
  have p: "\<not> Mutex w'" "script (Writer w') = []" "Encoder w' = Encoder w"
    "calls (Writer w') = calls (Writer w) @ frame_calls (Encoder w) (stream_of (fst f)) (snd f)"
    using wf w' Cons.prems(2) by simp_all
  have fd: "fst f = 1 \<or> fst f = 2" using Cons.prems(3) by simp
  have step: "demultiplex_Copy (Stream ''stdout'') (Stream ''stderr'') (f # fs) w
      = demultiplex_Copy (Stream ''stdout'') (Stream ''stderr'') fs w'"
    using fd w' by (auto simp: stream_of_def)
  have rest: "list_all (\<lambda>f. fst f = 1 \<or> fst f = 2) fs" using Cons.prems(3) by simp
  show ?case
    unfolding step using Cons.IH [OF p(1) p(2) rest] p(3) p(4) by simp
qed

lemma jobLog_sse:
  assumes "strings_Contains (Accept req) ''text/event-stream''"
    and "Attach cluster (jobLog_attachReq req params) False = Inr stream"
    and "list_all (\<lambda>f. fst f = 1 \<or> fst f = 2) (demux_writes stream)"
  shows "jobLog req params cluster enc [] =
     ([ClientAttach (peer cluster) (jobLog_attachReq req params) False,
       HeaderSet ''Content-Type'' ''text/event-stream; charset=utf-8'']
      @ concat (map (\<lambda>f. frame_calls enc (stream_of (fst f)) (snd f)) (demux_writes stream))
      @ [WWrite eof_event, AttachConnClose], Returned)"
proof -
  let ?w = "\<lparr>calls = [HeaderSet ''Content-Type'' ''text/event-stream; charset=utf-8''], script = []\<rparr>"
  let ?ssew = "NewSSELogWriter ?w enc"
  have m: "\<not> Mutex ?ssew" "script (Writer ?ssew) = []"
    by (simp_all add: NewSSELogWriter_def)
  note d = demultiplex_Copy_frames [OF m assms(3)]
  obtain r ssew' where rs: "demultiplex_Copy (Stream ''stdout'') (Stream ''stderr'')
                                     (demux_writes stream) ?ssew = (r, ssew')"
    by (cases "demultiplex_Copy (Stream ''stdout'') (Stream ''stderr'') (demux_writes stream) ?ssew") auto
  have r: "r = Some None" using d rs by simp
  have c: "calls (Writer ssew') = [HeaderSet ''Content-Type'' ''text/event-stream; charset=utf-8'']
       @ concat (map (\<lambda>f. frame_calls enc (stream_of (fst f)) (snd f)) (demux_writes stream))"
    using d rs by (simp add: NewSSELogWriter_def)
  have s: "script (Writer ssew') = []" using d rs by simp
  have e: "calls (snd (io_Write eof_event (Writer ssew'))) = calls (Writer ssew') @ [WWrite eof_event]"
    using s by (simp add: io_Write_def)
  show ?thesis
    using assms(1,2) rs r c e
    by (simp add: jobLog_def Let_def emit_def deferred_def)
qed

text \<open>
  C8. For a log request that accepts the event stream, whose attach succeeds, whose channel
  ends after frames of stdout and stderr only, and whose response writer accepts every
  write: the response body is one frame for each write of the demultiplexer, in order,
  followed by exactly \<open>event: eof\<close>, newline, \<open>data: {}\<close>, newline, newline. That marker is
  the last write of the run; only the close of the attach channel follows it. For a
  channel that yields \<open>hello\<close> on stdout and ends, the body is the one frame with
  \<open>stream = stdout\<close> and \<open>data = hello\<close> and then the marker.
\<close>

theorem jobLog_event_stream_eof:
  "strings_Contains (Accept req) ''text/event-stream''
   \<and> Attach cluster (jobLog_attachReq req params) False = Inr stream
   \<and> list_all (\<lambda>f. fst f = 1 \<or> fst f = 2) (demux_writes stream)
   \<longrightarrow> snd (jobLog req params cluster enc []) = Returned
      \<and> body (fst (jobLog req params cluster enc []))
          = concat (map (\<lambda>f. ''data: '' @ enc \<lparr>chunk_Stream = stream_of (fst f), chunk_Data = snd f\<rparr> @ nl @ nl)
                     (demux_writes stream))
            @ ''event: eof'' @ nl @ ''data: {}'' @ nl @ nl
      \<and> (\<exists>pre. fst (jobLog req params cluster enc [])
                   = pre @ [WWrite (''event: eof'' @ nl @ ''data: {}'' @ nl @ nl), AttachConnClose])
      \<and> (demux_writes stream = [(1, ''hello'')] \<longrightarrow>
           body (fst (jobLog req params cluster enc []))
             = ''data: '' @ enc \<lparr>chunk_Stream = ''stdout'', chunk_Data = ''hello''\<rparr> @ nl @ nl
               @ ''event: eof'' @ nl @ ''data: {}'' @ nl @ nl)"
proof (intro impI)
  assume a: "strings_Contains (Accept req) ''text/event-stream''
   \<and> Attach cluster (jobLog_attachReq req params) False = Inr stream
   \<and> list_all (\<lambda>f. fst f = 1 \<or> fst f = 2) (demux_writes stream)"
  then have j: "jobLog req params cluster enc [] =
     ([ClientAttach (peer cluster) (jobLog_attachReq req params) False,
       HeaderSet ''Content-Type'' ''text/event-stream; charset=utf-8'']
      @ concat (map (\<lambda>f. frame_calls enc (stream_of (fst f)) (snd f)) (demux_writes stream))
      @ [WWrite eof_event, AttachConnClose], Returned)"
    using jobLog_sse by blast
  have b: "body (fst (jobLog req params cluster enc []))
          = concat (map (\<lambda>f. ''data: '' @ enc \<lparr>chunk_Stream = stream_of (fst f), chunk_Data = snd f\<rparr> @ nl @ nl)
                     (demux_writes stream))
            @ ''event: eof'' @ nl @ ''data: {}'' @ nl @ nl"
    unfolding j by (simp add: body_append body_frames spec_frame_def eof_event_def)
  have p: "\<exists>pre. fst (jobLog req params cluster enc [])
                   = pre @ [WWrite (''event: eof'' @ nl @ ''data: {}'' @ nl @ nl), AttachConnClose]"
    unfolding j by (simp add: eof_event_def)
  have h: "demux_writes stream = [(1, ''hello'')] \<longrightarrow>
           body (fst (jobLog req params cluster enc []))
             = ''data: '' @ enc \<lparr>chunk_Stream = ''stdout'', chunk_Data = ''hello''\<rparr> @ nl @ nl
               @ ''event: eof'' @ nl @ ''data: {}'' @ nl @ nl"
    unfolding b by (simp add: stream_of_def)
  have r: "snd (jobLog req params cluster enc []) = Returned"
    unfolding j by simp
  from r b p h show "snd (jobLog req params cluster enc []) = Returned
      \<and> body (fst (jobLog req params cluster enc []))
          = concat (map (\<lambda>f. ''data: '' @ enc \<lparr>chunk_Stream = stream_of (fst f), chunk_Data = snd f\<rparr> @ nl @ nl)
                     (demux_writes stream))
            @ ''event: eof'' @ nl @ ''data: {}'' @ nl @ nl
      \<and> (\<exists>pre. fst (jobLog req params cluster enc [])
                   = pre @ [WWrite (''event: eof'' @ nl @ ''data: {}'' @ nl @ nl), AttachConnClose])
      \<and> (demux_writes stream = [(1, ''hello'')] \<longrightarrow>
           body (fst (jobLog req params cluster enc []))
             = ''data: '' @ enc \<lparr>chunk_Stream = ''stdout'', chunk_Data = ''hello''\<rparr> @ nl @ nl
               @ ''event: eof'' @ nl @ ''data: {}'' @ nl @ nl)"
    by (intro conjI)
qed

theorem jobLog_event_stream_eof_witness:
  "strings_Contains (Accept ex_req_sse) ''text/event-stream''
   \<and> Attach ex_client (jobLog_attachReq ex_req_sse ex_params) False = Inr ex_session
   \<and> demux_writes ex_session = [(1, ''hello'')]
   \<and> snd (jobLog ex_req_sse ex_params ex_client ex_encoder []) = Returned
   \<and> body (fst (jobLog ex_req_sse ex_params ex_client ex_encoder []))
       = ''data: '' @ ex_encoder \<lparr>chunk_Stream = ''stdout'', chunk_Data = ''hello''\<rparr> @ nl @ nl
         @ ''event: eof'' @ nl @ ''data: {}'' @ nl @ nl"
proof -
  have a1: "strings_Contains (Accept ex_req_sse) ''text/event-stream''"
    by (simp add: ex_req_sse_def)
  have a2: "Attach ex_client (jobLog_attachReq ex_req_sse ex_params) False = Inr ex_session"
    by (simp add: ex_client_def)
  have a3: "list_all (\<lambda>f. fst f = 1 \<or> fst f = 2) (demux_writes ex_session)"
    by (simp add: ex_session_def)
  have a4: "demux_writes ex_session = [(1, ''hello'')]"
    by (simp add: ex_session_def)
  have a: "strings_Contains (Accept ex_req_sse) ''text/event-stream''
   \<and> Attach ex_client (jobLog_attachReq ex_req_sse ex_params) False = Inr ex_session
   \<and> list_all (\<lambda>f. fst f = 1 \<or> fst f = 2) (demux_writes ex_session)"
    using a1 a2 a3 by (intro conjI)
  note t = jobLog_event_stream_eof [where req = ex_req_sse and cluster = ex_client
      and params = ex_params and stream = ex_session and enc = ex_encoder, THEN mp, OF a]
  have r: "snd (jobLog ex_req_sse ex_params ex_client ex_encoder []) = Returned"
    using t by (rule conjunct1)
  have b: "body (fst (jobLog ex_req_sse ex_params ex_client ex_encoder []))
       = ''data: '' @ ex_encoder \<lparr>chunk_Stream = ''stdout'', chunk_Data = ''hello''\<rparr> @ nl @ nl
         @ ''event: eof'' @ nl @ ''data: {}'' @ nl @ nl"
    using t [THEN conjunct2, THEN conjunct2, THEN conjunct2, THEN mp, OF a4] .
  from a1 a2 a4 r b show ?thesis by (intro conjI)
qed

end
